theory Spec2Isabelle
  imports Complex_Main "HOL-Library.Word" "HOL-Library.AList"
begin

unbundle bit_operations_syntax

section \<open>Values of the program\<close>

text \<open>
  A parsed JSON document as Python's \<open>json\<close> module builds it: \<open>None\<close>, \<open>bool\<close>,
  \<open>int\<close>, \<open>float\<close>, \<open>str\<close>, \<open>list\<close> and \<open>dict\<close>. A dict is an association list
  read with \<open>map_of\<close>. The program never computes with a float: it only tests its type
  and its truth value, so a float is carried as a real number.
\<close>

datatype json =
    JNull
  | JBool bool
  | JInt int
  | JFloat real
  | JStr string
  | JList "json list"
  | JObj "(string \<times> json) list"

text \<open>
  The exceptions the program can meet. All of them are subclasses of \<open>Exception\<close>.
  The decode error raised by \<open>response.json()\<close> derives from both
  \<open>json.JSONDecodeError\<close> and \<open>requests.exceptions.RequestException\<close>.
\<close>

datatype exn =
    JSONDecodeError
  | TypeError
  | AttributeError
  | KeyError
  | ValueError
  | BinasciiError
  | FileNotFoundError string
  | OSError string
  | RequestException string
  | OtherException string

definition is_JSONDecodeError :: "exn \<Rightarrow> bool" where
  "is_JSONDecodeError e = (e = JSONDecodeError)"

definition is_FileNotFoundError :: "exn \<Rightarrow> bool" where
  "is_FileNotFoundError e = (case e of FileNotFoundError m \<Rightarrow> True | _ \<Rightarrow> False)"

definition is_RequestException :: "exn \<Rightarrow> bool" where
  "is_RequestException e =
     (case e of RequestException m \<Rightarrow> True | JSONDecodeError \<Rightarrow> True | _ \<Rightarrow> False)"

type_synonym byte = "8 word"

subsection \<open>Python operators on parsed JSON\<close>

text \<open>\<open>t.startswith(s)\<close>, \<open>t.endswith(s)\<close> and \<open>s in t\<close> on strings.\<close>

definition startswith :: "string \<Rightarrow> string \<Rightarrow> bool" where
  "startswith t s = (take (length s) t = s)"

definition endswith :: "string \<Rightarrow> string \<Rightarrow> bool" where
  "endswith t s = (length s \<le> length t \<and> drop (length t - length s) t = s)"

fun substring :: "string \<Rightarrow> string \<Rightarrow> bool" where
  "substring s [] = (s = [])"
| "substring s (c # t) = (startswith (c # t) s \<or> substring s t)"

text \<open>\<open>key in x\<close>: key membership for a dict, element membership for a list, substring
  test for a str, \<open>TypeError\<close> for everything else.\<close>

fun py_in :: "string \<Rightarrow> json \<Rightarrow> exn + bool" where
  "py_in k (JObj kvs) = Inr (map_of kvs k \<noteq> None)"
| "py_in k (JList xs) = Inr (JStr k \<in> set xs)"
| "py_in k (JStr s) = Inr (substring k s)"
| "py_in k v = Inl TypeError"

text \<open>\<open>x[key]\<close> with a str key: a dict lookup; a list or a str wants an integer index and
  raises \<open>TypeError\<close>, as does every value that is not subscriptable.\<close>

fun py_getitem :: "json \<Rightarrow> string \<Rightarrow> exn + json" where
  "py_getitem (JObj kvs) k = (case map_of kvs k of None \<Rightarrow> Inl KeyError | Some v \<Rightarrow> Inr v)"
| "py_getitem v k = Inl TypeError"

text \<open>\<open>x.get(key)\<close>: only a dict has the method; a missing key gives \<open>None\<close>.\<close>

fun py_get :: "json \<Rightarrow> string \<Rightarrow> exn + json" where
  "py_get (JObj kvs) k = (case map_of kvs k of None \<Rightarrow> Inr JNull | Some v \<Rightarrow> Inr v)"
| "py_get v k = Inl AttributeError"

fun truthy :: "json \<Rightarrow> bool" where
  "truthy JNull = False"
| "truthy (JBool b) = b"
| "truthy (JInt i) = (i \<noteq> 0)"
| "truthy (JFloat r) = (r \<noteq> 0)"
| "truthy (JStr s) = (s \<noteq> [])"
| "truthy (JList xs) = (xs \<noteq> [])"
| "truthy (JObj kvs) = (kvs \<noteq> [])"

fun isinstance_list :: "json \<Rightarrow> bool" where
  "isinstance_list (JList xs) = True"
| "isinstance_list v = False"

text \<open>The truth value of an optional command-line string: \<open>None\<close> and \<open>""\<close> are false.\<close>

fun truthy_opt :: "string option \<Rightarrow> bool" where
  "truthy_opt None = False"
| "truthy_opt (Some s) = (s \<noteq> [])"

subsection \<open>Decimal numerals and the timestamp\<close>

definition digit :: "nat \<Rightarrow> char" where
  "digit d = char_of (48 + d)"

function str_nat :: "nat \<Rightarrow> string" where
  "str_nat n = (if n < 10 then [digit n] else str_nat (n div 10) @ [digit (n mod 10)])"
  by pat_completeness auto
termination
  by (relation "measure id") auto

declare str_nat.simps [simp del]

text \<open>\<open>str(i)\<close> for a Python int.\<close>

definition str_int :: "int \<Rightarrow> string" where
  "str_int i = (if i < 0 then CHR ''-'' # str_nat (nat (- i)) else str_nat (nat i))"

record datetime =
  year :: nat
  month :: nat
  day :: nat
  hour :: nat
  minute :: nat
  second :: nat

definition pad2 :: "nat \<Rightarrow> string" where
  "pad2 n = [digit (n div 10 mod 10), digit (n mod 10)]"

definition pad4 :: "nat \<Rightarrow> string" where
  "pad4 n = [digit (n div 1000 mod 10), digit (n div 100 mod 10),
             digit (n div 10 mod 10), digit (n mod 10)]"

text \<open>\<open>strftime("%Y%m%d_%H%M%S")\<close>: the year in four digits, every other field in two.\<close>

definition strftime :: "datetime \<Rightarrow> string" where
  "strftime t = pad4 (year t) @ pad2 (month t) @ pad2 (day t) @ ''_''
                @ pad2 (hour t) @ pad2 (minute t) @ pad2 (second t)"

text \<open>The datetimes \<open>datetime.now()\<close> can return whose year prints in four digits.\<close>

definition valid_datetime :: "datetime \<Rightarrow> bool" where
  "valid_datetime t =
     (1000 \<le> year t \<and> year t \<le> 9999 \<and> 1 \<le> month t \<and> month t \<le> 12
      \<and> 1 \<le> day t \<and> day t \<le> 31 \<and> hour t < 24 \<and> minute t < 60 \<and> second t < 60)"

definition is_digit :: "char \<Rightarrow> bool" where
  "is_digit c = (48 \<le> (of_char c :: nat) \<and> (of_char c :: nat) \<le> 57)"

subsection \<open>Base64\<close>

text \<open>
  \<open>base64.b64decode(s)\<close> with its default arguments. A str is first encoded as ASCII
  (\<open>ValueError\<close> when it holds a character above 127); a value that is neither a str
  nor bytes-like is a \<open>TypeError\<close>. The bytes then go through \<open>binascii.a2b_base64\<close>
  in its non-strict mode: characters outside the alphabet are skipped, a pad character
  ends the input once it completes a group of four, and input that stops inside a group
  raises \<open>binascii.Error\<close>.
\<close>

definition table_a2b_base64 :: "char \<Rightarrow> byte option" where
  "table_a2b_base64 c =
     (let k = (of_char c :: nat) in
      if 65 \<le> k \<and> k \<le> 90 then Some (of_nat (k - 65))
      else if 97 \<le> k \<and> k \<le> 122 then Some (of_nat (k - 71))
      else if 48 \<le> k \<and> k \<le> 57 then Some (of_nat (k + 4))
      else if k = 43 then Some 62
      else if k = 47 then Some 63
      else None)"

text \<open>The decoding loop; its state is \<open>quad_pos\<close>, \<open>leftchar\<close>, \<open>pads\<close> and the output
  written so far.\<close>

fun a2b_loop :: "nat \<Rightarrow> byte \<Rightarrow> nat \<Rightarrow> byte list \<Rightarrow> string \<Rightarrow> exn + byte list" where
  "a2b_loop quad_pos leftchar pads out [] =
     (if quad_pos \<noteq> 0 then Inl BinasciiError else Inr out)"
| "a2b_loop quad_pos leftchar pads out (c # cs) =
     (if c = CHR ''='' then
        (if quad_pos \<ge> 2 then
           (if quad_pos + (pads + 1) \<ge> 4 then Inr out
            else a2b_loop quad_pos leftchar (pads + 1) out cs)
         else a2b_loop quad_pos leftchar pads out cs)
      else
        (case table_a2b_base64 c of
           None \<Rightarrow> a2b_loop quad_pos leftchar pads out cs
         | Some this_ch \<Rightarrow>
             (if quad_pos = 0 then a2b_loop 1 this_ch 0 out cs
              else if quad_pos = 1 then
                a2b_loop 2 (this_ch AND 0x0f) 0
                  (out @ [push_bit 2 leftchar OR drop_bit 4 this_ch]) cs
              else if quad_pos = 2 then
                a2b_loop 3 (this_ch AND 0x03) 0
                  (out @ [push_bit 4 leftchar OR drop_bit 2 this_ch]) cs
              else
                a2b_loop 0 0 0 (out @ [push_bit 6 leftchar OR this_ch]) cs)))"

definition a2b_base64 :: "string \<Rightarrow> exn + byte list" where
  "a2b_base64 s = a2b_loop 0 0 0 [] s"

fun b64decode :: "json \<Rightarrow> exn + byte list" where
  "b64decode (JStr s) =
     (if \<exists>c \<in> set s. (of_char c :: nat) > 127 then Inl ValueError else a2b_base64 s)"
| "b64decode v = Inl TypeError"

text \<open>The standard encoding (RFC 4648) that the service applies to an image: three bytes
  become four sextets, and a last group of one or two bytes is filled with zero bits and
  padded with \<open>=\<close>.\<close>

definition table_b2a_base64 :: "byte \<Rightarrow> char" where
  "table_b2a_base64 x =
     (let k = unat x in
      if k < 26 then char_of (k + 65)
      else if k < 52 then char_of (k + 71)
      else if k < 62 then char_of (k - 4)
      else if k = 62 then CHR ''+''
      else CHR ''/'')"

definition sextet1 :: "byte \<Rightarrow> byte" where
  "sextet1 a = drop_bit 2 a"

definition sextet2 :: "byte \<Rightarrow> byte \<Rightarrow> byte" where
  "sextet2 a b = push_bit 4 (a AND 0x03) OR drop_bit 4 b"

definition sextet3 :: "byte \<Rightarrow> byte \<Rightarrow> byte" where
  "sextet3 b c = push_bit 2 (b AND 0x0f) OR drop_bit 6 c"

definition sextet4 :: "byte \<Rightarrow> byte" where
  "sextet4 c = c AND 0x3f"

fun b64encode :: "byte list \<Rightarrow> string" where
  "b64encode [] = []"
| "b64encode [a] =
     [table_b2a_base64 (sextet1 a), table_b2a_base64 (sextet2 a 0), CHR ''='', CHR ''='']"
| "b64encode [a, b] =
     [table_b2a_base64 (sextet1 a), table_b2a_base64 (sextet2 a b),
      table_b2a_base64 (sextet3 b 0), CHR ''='']"
| "b64encode (a # b # c # rest) =
     [table_b2a_base64 (sextet1 a), table_b2a_base64 (sextet2 a b),
      table_b2a_base64 (sextet3 b c), table_b2a_base64 (sextet4 c)] @ b64encode rest"

section \<open>The environment and the state of one run\<close>

text \<open>
  A printed line is the f-string that produced it: its literal parts and the values
  interpolated between them. \<open>Val\<close> is \<open>str()\<close> of a parsed JSON value, \<open>Dumps\<close> is
  \<open>json.dumps(v, ensure_ascii=False, indent=2)\<close>, \<open>Exc\<close> is \<open>str()\<close> of an exception.
\<close>

datatype piece = Lit string | Str string | Num int | Val json | Dumps json | Exc exn

type_synonym line = "piece list"

text \<open>An HTTP response: \<open>json_body\<close> is the result of \<open>response.json()\<close>, \<open>None\<close> when
  it raises its decode error.\<close>

record response =
  status_code :: int
  text_body :: string
  json_body :: "json option"

text \<open>A file part of a multipart upload: the field name, the file's base name and the
  handle it is read from.\<close>

type_synonym file_part = "string \<times> (string \<times> nat)"

datatype body = JsonBody "(string \<times> json) list" | FormBody "file_part list" "(string \<times> json) list"

record http_request =
  req_url :: string
  req_headers :: "(string \<times> string) list"
  req_body :: body
  req_timeout :: nat

text \<open>
  What the run cannot change: the credential, the clock (the n-th call of
  \<open>datetime.now()\<close>), which paths exist, which \<open>open\<close> calls fail, which \<open>write\<close> calls
  fail and after how many bytes, and what the service answers.
\<close>

record env =
  api_key :: string
  clock :: "nat \<Rightarrow> datetime"
  path_exists :: "string \<Rightarrow> bool"
  open_rb_error :: "string \<Rightarrow> exn option"
  open_wb_error :: "string \<Rightarrow> exn option"
  write_fault :: "string \<Rightarrow> (exn \<times> nat) option"
  transport :: "http_request \<Rightarrow> exn + response"

text \<open>What the run changes: the files it writes, the lines it prints, the requests it
  sends, the file handles it holds open, and how often it has read the clock.\<close>

record world =
  disk :: "string \<rightharpoonup> byte list"
  stdout :: "line list"
  sent :: "http_request list"
  open_handles :: "nat set"
  next_handle :: nat
  ticks :: nat

definition print :: "line \<Rightarrow> world \<Rightarrow> world" where
  "print l w = w\<lparr>stdout := stdout w @ [l]\<rparr>"

definition BASE_URL :: string where
  "BASE_URL = ''https://api.openai.com/v1/images''"

definition GPT_IMAGE_MODEL :: string where
  "GPT_IMAGE_MODEL = ''gpt-image-1''"

section \<open>Saving an image\<close>

definition image_filename :: "string \<Rightarrow> string \<Rightarrow> int \<Rightarrow> string \<Rightarrow> string" where
  "image_filename prefix timestamp index output_format =
     prefix @ ''_'' @ timestamp @ ''_'' @ str_int (index + 1) @ ''.'' @ output_format"

text \<open>
  \<open>save_image_from_b64\<close>: everything happens inside one \<open>try\<close> whose handler catches
  every \<open>Exception\<close>, prints it and returns \<open>None\<close>. Opening the file for writing
  truncates it; a write that fails leaves the bytes that reached the file.
\<close>

definition save_image_from_b64 ::
  "env \<Rightarrow> json \<Rightarrow> string \<Rightarrow> int \<Rightarrow> string \<Rightarrow> world \<Rightarrow> string option \<times> world" where
  "save_image_from_b64 ev b64_string prefix index output_format w =
     (case b64decode b64_string of
        Inl e \<Rightarrow> (None, print [Lit ''Error saving image: '', Exc e] w)
      | Inr image_data \<Rightarrow>
          (let timestamp = strftime (clock ev (ticks w));
               w1 = w\<lparr>ticks := Suc (ticks w)\<rparr>;
               filename = image_filename prefix timestamp index output_format
           in case open_wb_error ev filename of
                Some e \<Rightarrow> (None, print [Lit ''Error saving image: '', Exc e] w1)
              | None \<Rightarrow>
                  (case write_fault ev filename of
                     Some (e, k) \<Rightarrow>
                       (None, print [Lit ''Error saving image: '', Exc e]
                                (w1\<lparr>disk := (disk w1)(filename \<mapsto> take k image_data)\<rparr>))
                   | None \<Rightarrow>
                       (Some filename, print [Lit ''Saved image: '', Str filename]
                                (w1\<lparr>disk := (disk w1)(filename \<mapsto> image_data)\<rparr>)))))"

section \<open>Handling the response\<close>

text \<open>A statement that can raise returns the exception, if any, and the state it left.\<close>

type_synonym outcome = "exn option \<times> world"

definition item_warning :: "int \<Rightarrow> json \<Rightarrow> line" where
  \<open>item_warning i item =
     [Lit ''Warning: Item '', Num i, Lit '' does not contain "b64_json". Item: '', Val item]\<close>

text \<open>The \<open>for i, item in enumerate(data["data"])\<close> loop, from index \<open>i\<close> on.\<close>

fun handle_items :: "env \<Rightarrow> string \<Rightarrow> string \<Rightarrow> int \<Rightarrow> json list \<Rightarrow> world \<Rightarrow> outcome" where
  "handle_items ev output_prefix fmt i [] w = (None, w)"
| "handle_items ev output_prefix fmt i (item # rest) w =
     (case py_in ''b64_json'' item of
        Inl e \<Rightarrow> (Some e, w)
      | Inr True \<Rightarrow>
          (case py_getitem item ''b64_json'' of
             Inl e \<Rightarrow> (Some e, w)
           | Inr b64 \<Rightarrow>
               handle_items ev output_prefix fmt (i + 1) rest
                 (snd (save_image_from_b64 ev b64 output_prefix i fmt w)))
      | Inr False \<Rightarrow>
          handle_items ev output_prefix fmt (i + 1) rest (print (item_warning i item) w))"

definition unexpected_structure :: "json \<Rightarrow> line" where
  \<open>unexpected_structure data =
     [Lit ''Unexpected response structure: "data" field missing or not a list. Full response: '',
      Val data]\<close>

definition no_images_generated :: line where
  "no_images_generated =
     [Lit ''No images were generated. This might be due to a safety filter or other issue.'']"

definition no_usage_warning :: line where
  "no_usage_warning =
     [Lit ''Warning: No usage information provided in the response, and data structure is unexpected.'']"

text \<open>The condition \<open>"data" in data and isinstance(data["data"], list)\<close>.\<close>

definition data_is_list :: "json \<Rightarrow> exn + bool" where
  "data_is_list data =
     (case py_in ''data'' data of
        Inl e \<Rightarrow> Inl e
      | Inr False \<Rightarrow> Inr False
      | Inr True \<Rightarrow>
          (case py_getitem data ''data'' of
             Inl e \<Rightarrow> Inl e
           | Inr v \<Rightarrow> Inr (isinstance_list v)))"

text \<open>The first \<open>if\<close>/\<open>else\<close> of the body: save the images or report the shape. The
  condition has just found \<open>data["data"]\<close> to be a list when the loop reads it again, so
  the branch for another value is never taken.\<close>

definition images_stage :: "env \<Rightarrow> json \<Rightarrow> string \<Rightarrow> string \<Rightarrow> world \<Rightarrow> outcome" where
  "images_stage ev data output_prefix fmt w =
     (case data_is_list data of
        Inl e \<Rightarrow> (Some e, w)
      | Inr True \<Rightarrow>
          (case py_getitem data ''data'' of
             Inl e \<Rightarrow> (Some e, w)
           | Inr (JList items) \<Rightarrow> handle_items ev output_prefix fmt 0 items w
           | Inr v \<Rightarrow> (Some TypeError, w))
      | Inr False \<Rightarrow> (None, print (unexpected_structure data) w))"

text \<open>The usage report: five \<open>print\<close> statements, each of which may raise after the
  ones before it have printed.\<close>

definition usage_report :: "json \<Rightarrow> world \<Rightarrow> outcome" where
  "usage_report usage w =
     (let w1 = print [Lit (CHR 0x0A # ''Usage Information:'')] w in
      case py_get usage ''total_tokens'' of
        Inl e \<Rightarrow> (Some e, w1)
      | Inr tot \<Rightarrow>
     (let w2 = print [Lit ''  Total Tokens: '', Val tot] w1 in
      case py_get usage ''input_tokens'' of
        Inl e \<Rightarrow> (Some e, w2)
      | Inr inp \<Rightarrow>
     (let w3 = print [Lit ''  Input Tokens: '', Val inp] w2 in
      case py_get usage ''output_tokens'' of
        Inl e \<Rightarrow> (Some e, w3)
      | Inr outp \<Rightarrow>
     (let w4 = print [Lit ''  Output Tokens: '', Val outp] w3 in
      case py_in ''input_tokens_details'' usage of
        Inl e \<Rightarrow> (Some e, w4)
      | Inr False \<Rightarrow> (None, w4)
      | Inr True \<Rightarrow>
          (case py_getitem usage ''input_tokens_details'' of
             Inl e \<Rightarrow> (Some e, w4)
           | Inr details \<Rightarrow>
               (case py_get details ''text_tokens'' of
                  Inl e \<Rightarrow> (Some e, w4)
                | Inr t \<Rightarrow>
               (let w5 = print [Lit ''  Input Text Tokens: '', Val t] w4 in
                case py_get details ''image_tokens'' of
                  Inl e \<Rightarrow> (Some e, w5)
                | Inr im \<Rightarrow>
                    (None, print [Lit ''  Input Image Tokens: '', Val im] w5))))))))"

text \<open>The condition \<open>"usage" in data and data["usage"] is not None\<close>.\<close>

definition has_usage :: "json \<Rightarrow> exn + bool" where
  "has_usage data =
     (case py_in ''usage'' data of
        Inl e \<Rightarrow> Inl e
      | Inr False \<Rightarrow> Inr False
      | Inr True \<Rightarrow>
          (case py_getitem data ''usage'' of
             Inl e \<Rightarrow> Inl e
           | Inr v \<Rightarrow> Inr (v \<noteq> JNull)))"

text \<open>The condition \<open>"data" in data and not data["data"]\<close>.\<close>

definition data_is_empty :: "json \<Rightarrow> exn + bool" where
  "data_is_empty data =
     (case py_in ''data'' data of
        Inl e \<Rightarrow> Inl e
      | Inr False \<Rightarrow> Inr False
      | Inr True \<Rightarrow>
          (case py_getitem data ''data'' of
             Inl e \<Rightarrow> Inl e
           | Inr v \<Rightarrow> Inr (\<not> truthy v)))"

text \<open>The second \<open>if\<close>/\<open>elif\<close>/\<open>elif\<close> of the body.\<close>

definition usage_stage :: "json \<Rightarrow> world \<Rightarrow> outcome" where
  "usage_stage data w =
     (case has_usage data of
        Inl e \<Rightarrow> (Some e, w)
      | Inr True \<Rightarrow>
          (case py_getitem data ''usage'' of
             Inl e \<Rightarrow> (Some e, w)
           | Inr usage \<Rightarrow> usage_report usage w)
      | Inr False \<Rightarrow>
          (case data_is_empty data of
             Inl e \<Rightarrow> (Some e, w)
           | Inr True \<Rightarrow> (None, print no_images_generated w)
           | Inr False \<Rightarrow>
               (case data_is_list data of
                  Inl e \<Rightarrow> (Some e, w)
                | Inr True \<Rightarrow> (None, w)
                | Inr False \<Rightarrow> (None, print no_usage_warning w))))"

text \<open>The body of the \<open>try\<close> once \<open>response.json()\<close> has returned \<open>data\<close>.\<close>

definition process_body :: "env \<Rightarrow> json \<Rightarrow> string \<Rightarrow> string \<Rightarrow> world \<Rightarrow> outcome" where
  "process_body ev data output_prefix fmt w =
     (case images_stage ev data output_prefix fmt w of
        (Some e, w') \<Rightarrow> (Some e, w')
      | (None, w') \<Rightarrow> usage_stage data w')"

text \<open>The two handlers of the \<open>try\<close>: \<open>json.JSONDecodeError\<close> first, then every other
  \<open>Exception\<close>; the second one calls \<open>response.json()\<close> again.\<close>

definition handle_exception :: "response \<Rightarrow> exn \<Rightarrow> world \<Rightarrow> outcome" where
  "handle_exception resp e w =
     (if is_JSONDecodeError e then
        (None, print [Lit ''Raw response: '', Str (text_body resp)]
                 (print [Lit ''Error: Could not decode JSON response.''] w))
      else
        (let w1 = print [Lit ''An error occurred while processing the response: '', Exc e] w in
         case json_body resp of
           None \<Rightarrow> (Some JSONDecodeError, w1)
         | Some d \<Rightarrow> (None, print [Lit ''Raw response JSON: '', Val d] w1)))"

definition handle_api_response ::
  "env \<Rightarrow> response \<Rightarrow> string \<Rightarrow> string \<Rightarrow> world \<Rightarrow> outcome" where
  "handle_api_response ev resp output_prefix expected_output_format_for_saving w =
     (if status_code resp = 200 then
        (case json_body resp of
           None \<Rightarrow> handle_exception resp JSONDecodeError w
         | Some data \<Rightarrow>
             (case process_body ev data output_prefix expected_output_format_for_saving w of
                (None, w') \<Rightarrow> (None, w')
              | (Some e, w') \<Rightarrow> handle_exception resp e w'))
      else
        (let w1 = print [Lit ''Error: API request failed with status code '',
                         Num (status_code resp)] w in
         case json_body resp of
           Some error_details \<Rightarrow> (None, print [Lit ''Error details: '', Dumps error_details] w1)
         | None \<Rightarrow>
             (None, print [Lit ''Could not parse error response: '', Str (text_body resp)] w1)))"

section \<open>The two commands\<close>

text \<open>The namespace \<open>argparse\<close> hands to a command; \<open>arg_x\<close> is \<open>args.x\<close>. The
  \<open>create\<close> command reads no image paths and \<open>edit\<close> reads no background, format,
  compression or moderation.\<close>

record args =
  arg_prompt :: string
  arg_n :: int
  arg_quality :: string
  arg_size :: string
  arg_background :: string
  arg_output_format :: string
  arg_output_compression :: "int option"
  arg_moderation :: "string option"
  arg_user :: "string option"
  arg_output_prefix :: string
  arg_image_paths :: "string list"
  arg_mask_path :: "string option"

fun opt_str :: "string option \<Rightarrow> json" where
  "opt_str None = JNull"
| "opt_str (Some s) = JStr s"

fun opt_int :: "int option \<Rightarrow> json" where
  "opt_int None = JNull"
| "opt_int (Some i) = JInt i"

text \<open>\<open>requests.post\<close>: the request goes out, and the transport answers or raises.\<close>

definition post :: "env \<Rightarrow> http_request \<Rightarrow> world \<Rightarrow> (exn + response) \<times> world" where
  "post ev req w = (transport ev req, w\<lparr>sent := sent w @ [req]\<rparr>)"

text \<open>\<open>except requests.exceptions.RequestException\<close>: any other exception goes on.\<close>

definition except_RequestException :: "outcome \<Rightarrow> outcome" where
  "except_RequestException r =
     (case r of
        (None, w) \<Rightarrow> (None, w)
      | (Some e, w) \<Rightarrow>
          (if is_RequestException e then (None, print [Lit ''Request failed: '', Exc e] w)
           else (Some e, w)))"

text \<open>The \<open>try\<close> both commands end with: post the request and handle the response.\<close>

definition try_request :: "env \<Rightarrow> http_request \<Rightarrow> string \<Rightarrow> string \<Rightarrow> world \<Rightarrow> outcome" where
  "try_request ev req output_prefix fmt w =
     except_RequestException
       (case post ev req w of
          (Inl e, w1) \<Rightarrow> (Some e, w1)
        | (Inr resp, w1) \<Rightarrow> handle_api_response ev resp output_prefix fmt w1)"

subsection \<open>create\<close>

definition create_payload :: "args \<Rightarrow> (string \<times> json) list" where
  "create_payload a =
     (let payload0 =
            [(''prompt'', JStr (arg_prompt a)),
             (''model'', JStr GPT_IMAGE_MODEL),
             (''n'', JInt (arg_n a)),
             (''quality'', JStr (arg_quality a)),
             (''size'', JStr (arg_size a)),
             (''background'', JStr (arg_background a)),
             (''output_format'', JStr (arg_output_format a))];
          payload1 =
            (if truthy_opt (arg_user a)
             then AList.update ''user'' (opt_str (arg_user a)) payload0 else payload0);
          payload2 =
            (if arg_output_compression a \<noteq> None
                \<and> arg_output_format a \<in> set [''jpeg'', ''webp'']
             then AList.update ''output_compression'' (opt_int (arg_output_compression a)) payload1
             else payload1)
      in if truthy_opt (arg_moderation a)
         then AList.update ''moderation'' (opt_str (arg_moderation a)) payload2 else payload2)"

definition create_image :: "env \<Rightarrow> args \<Rightarrow> world \<Rightarrow> outcome" where
  \<open>create_image ev a w =
     (let w1 = print [Lit ''Creating image with prompt: "'', Str (arg_prompt a),
                      Lit ''" using model '', Str GPT_IMAGE_MODEL] w;
          req = \<lparr>req_url = BASE_URL @ ''/generations'',
                 req_headers = [(''Authorization'', ''Bearer '' @ api_key ev),
                            (''Content-Type'', ''application/json'')],
                 req_body = JsonBody (create_payload a),
                 req_timeout = 120\<rparr>
      in try_request ev req (arg_output_prefix a) (arg_output_format a) w1)\<close>

subsection \<open>edit\<close>

fun join :: "string \<Rightarrow> string list \<Rightarrow> string" where
  "join sep [] = []"
| "join sep [x] = x"
| "join sep (x # y # ys) = x @ sep @ join sep (y # ys)"

text \<open>\<open>os.path.basename\<close>: what follows the last slash.\<close>

definition basename :: "string \<Rightarrow> string" where
  "basename p = rev (takeWhile (\<lambda>c. c \<noteq> CHR ''/'') (rev p))"

text \<open>\<open>open(path, "rb")\<close> gives a fresh handle, and \<open>close\<close> releases one.\<close>

definition open_rb :: "env \<Rightarrow> string \<Rightarrow> world \<Rightarrow> (exn + nat) \<times> world" where
  "open_rb ev path w =
     (case open_rb_error ev path of
        Some e \<Rightarrow> (Inl e, w)
      | None \<Rightarrow>
          (Inr (next_handle w),
           w\<lparr>open_handles := insert (next_handle w) (open_handles w),
             next_handle := Suc (next_handle w)\<rparr>))"

definition close :: "nat \<Rightarrow> world \<Rightarrow> world" where
  "close h w = w\<lparr>open_handles := open_handles w - {h}\<rparr>"

text \<open>\<open>for f_obj in opened_files: f_obj.close()\<close>\<close>

definition close_all :: "nat list \<Rightarrow> world \<Rightarrow> world" where
  "close_all opened_files w = fold close opened_files w"

text \<open>The state of the first \<open>try\<close>: the exception raised, if any, with
  \<open>files_to_send\<close>, \<open>opened_files\<close> and the world as they are at that point.\<close>

type_synonym opened = "exn option \<times> file_part list \<times> nat list \<times> world"

fun open_images :: "env \<Rightarrow> string list \<Rightarrow> file_part list \<Rightarrow> nat list \<Rightarrow> world \<Rightarrow> opened" where
  "open_images ev [] files_to_send opened_files w = (None, files_to_send, opened_files, w)"
| "open_images ev (image_path # rest) files_to_send opened_files w =
     (if \<not> path_exists ev image_path then
        (Some (FileNotFoundError (''Image file not found: '' @ image_path)),
         files_to_send, opened_files, w)
      else
        (case open_rb ev image_path w of
           (Inl e, w') \<Rightarrow> (Some e, files_to_send, opened_files, w')
         | (Inr file_obj, w') \<Rightarrow>
             open_images ev rest
               (files_to_send @ [(''image[]'', (basename image_path, file_obj))])
               (opened_files @ [file_obj]) w'))"

definition open_mask :: "env \<Rightarrow> string \<Rightarrow> file_part list \<Rightarrow> nat list \<Rightarrow> world \<Rightarrow> opened" where
  "open_mask ev mask_path files_to_send opened_files w =
     (if \<not> path_exists ev mask_path then
        (Some (FileNotFoundError (''Mask file not found: '' @ mask_path)),
         files_to_send, opened_files, w)
      else
        (case open_rb ev mask_path w of
           (Inl e, w') \<Rightarrow> (Some e, files_to_send, opened_files, w')
         | (Inr mask_file_obj, w') \<Rightarrow>
             (None, files_to_send @ [(''mask'', (basename mask_path, mask_file_obj))],
              opened_files @ [mask_file_obj], w')))"

text \<open>The body of the first \<open>try\<close>: every image, then the mask when one is given.\<close>

definition open_files :: "env \<Rightarrow> args \<Rightarrow> world \<Rightarrow> opened" where
  "open_files ev a w =
     (case open_images ev (arg_image_paths a) [] [] w of
        (Some e, files_to_send, opened_files, w1) \<Rightarrow> (Some e, files_to_send, opened_files, w1)
      | (None, files_to_send, opened_files, w1) \<Rightarrow>
          (case arg_mask_path a of
             None \<Rightarrow> (None, files_to_send, opened_files, w1)
           | Some mask_path \<Rightarrow>
               (if mask_path \<noteq> [] then open_mask ev mask_path files_to_send opened_files w1
                else (None, files_to_send, opened_files, w1))))"

definition edit_payload :: "args \<Rightarrow> (string \<times> json) list" where
  "edit_payload a =
     (let data_payload =
            [(''prompt'', JStr (arg_prompt a)),
             (''model'', JStr GPT_IMAGE_MODEL),
             (''n'', JInt (arg_n a)),
             (''quality'', JStr (arg_quality a)),
             (''size'', JStr (arg_size a))]
      in if truthy_opt (arg_user a)
         then AList.update ''user'' (opt_str (arg_user a)) data_payload else data_payload)"

text \<open>The lines \<open>edit\<close> prints before it opens a file: what it is about to do, a warning
  for more than sixteen images, and a note when a mask comes with several images.\<close>

definition edit_announce :: "args \<Rightarrow> world \<Rightarrow> world" where
  \<open>edit_announce a w =
     (let image_paths_str = join '', '' (map (\<lambda>path. ''"'' @ path @ ''"'') (arg_image_paths a));
          w1 = print [Lit ''Editing image(s) '', Str image_paths_str, Lit '' with prompt: "'',
                      Str (arg_prompt a), Lit ''" using model '', Str GPT_IMAGE_MODEL] w;
          w2 = (if length (arg_image_paths a) > 16 then
                  print [Lit ''Warning: You provided '', Num (int (length (arg_image_paths a))),
                         Lit '' images. gpt-image-1 supports up to 16 images for edits. Proceeding, but the API might reject this.'']
                    w1
                else w1)
      in if truthy_opt (arg_mask_path a) \<and> length (arg_image_paths a) > 1 then
           print [Lit ''Note: A mask was provided with multiple images. The mask will be applied to the first image: "'',
                  Str (arg_image_paths a ! 0), Lit ''".'']
             w2
         else w2)\<close>

text \<open>\<open>edit_image\<close>: when opening fails, both handlers print the exception, close what
  was opened and return; otherwise the request is posted and the \<open>finally\<close> clause closes
  every opened file, whether the \<open>try\<close> ended normally, in its handler or by an exception
  that goes on.\<close>

definition edit_image :: "env \<Rightarrow> args \<Rightarrow> world \<Rightarrow> outcome" where
  "edit_image ev a w =
     (case open_files ev a (edit_announce a w) of
        (Some e, files_to_send, opened_files, w4) \<Rightarrow>
          (if is_FileNotFoundError e then
             (None, close_all opened_files (print [Lit ''Error: '', Exc e] w4))
           else
             (None, close_all opened_files (print [Lit ''Error opening file(s): '', Exc e] w4)))
      | (None, files_to_send, opened_files, w4) \<Rightarrow>
          (let req = \<lparr>req_url = BASE_URL @ ''/edits'',
                     req_headers = [(''Authorization'', ''Bearer '' @ api_key ev)],
                     req_body = FormBody files_to_send (edit_payload a),
                     req_timeout = 120\<rparr>
           in case try_request ev req (arg_output_prefix a) ''png'' w4 of
                (r, w5) \<Rightarrow> (r, close_all opened_files w5)))"

section \<open>Notions used to state the properties\<close>

subsection \<open>Reading the output back\<close>

text \<open>The number a string of decimal digits stands for, and the date and time a
  timestamp of the form \<open>YYYYMMDD_HHMMSS\<close> stands for.\<close>

definition read_nat :: "string \<Rightarrow> nat" where
  "read_nat s = foldl (\<lambda>acc c. 10 * acc + (of_char c - 48)) 0 s"

definition parse_timestamp :: "string \<Rightarrow> datetime" where
  "parse_timestamp s =
     \<lparr>year = read_nat (take 4 s), month = read_nat (take 2 (drop 4 s)),
      day = read_nat (take 2 (drop 6 s)), hour = read_nat (take 2 (drop 9 s)),
      minute = read_nat (take 2 (drop 11 s)), second = read_nat (take 2 (drop 13 s))\<rparr>"

subsection \<open>The loop over the data list\<close>

text \<open>The image payload an element of \<open>data\<close> carries: the value of the \<open>b64_json\<close> key of
  a dict.\<close>

fun b64_field :: "json \<Rightarrow> json option" where
  "b64_field (JObj kvs) = map_of kvs ''b64_json''"
| "b64_field v = None"

text \<open>What one round of the loop does to the element at position \<open>fst p\<close> when nothing
  raises: the payload goes to the persister with that position, an element without a
  payload gets the warning that names the position.\<close>

definition handle_item :: "env \<Rightarrow> string \<Rightarrow> string \<Rightarrow> nat \<times> json \<Rightarrow> world \<Rightarrow> world" where
  "handle_item ev output_prefix fmt p w =
     (case b64_field (snd p) of
        Some b64 \<Rightarrow> snd (save_image_from_b64 ev b64 output_prefix (int (fst p)) fmt w)
      | None \<Rightarrow> print (item_warning (int (fst p)) (snd p)) w)"

text \<open>One call of the persister, for the payload \<open>snd p\<close> at position \<open>fst p\<close>.\<close>

definition persist :: "env \<Rightarrow> string \<Rightarrow> string \<Rightarrow> nat \<times> json \<Rightarrow> world \<Rightarrow> world" where
  "persist ev output_prefix fmt p w =
     snd (save_image_from_b64 ev (snd p) output_prefix (int (fst p)) fmt w)"

text \<open>What is left of the handler once the images are saved: the usage stage inside the
  \<open>try\<close>, with its handlers.\<close>

definition report_usage :: "response \<Rightarrow> json \<Rightarrow> world \<Rightarrow> outcome" where
  "report_usage resp data w =
     (case usage_stage data w of
        (None, w') \<Rightarrow> (None, w')
      | (Some e, w') \<Rightarrow> handle_exception resp e w')"

subsection \<open>What a run may change\<close>

text \<open>The lines printed between two states of a run.\<close>

definition new_lines :: "world \<Rightarrow> world \<Rightarrow> line list" where
  "new_lines w w' = drop (length (stdout w)) (stdout w')"

text \<open>Between \<open>w\<close> and \<open>w'\<close> only files with the extension \<open>fmt\<close> changed, the output
  only grew, and every file reported as saved has that extension.\<close>

definition saves_only :: "string \<Rightarrow> world \<Rightarrow> world \<Rightarrow> bool" where
  "saves_only fmt w w' =
     ((\<forall>f. disk w' f \<noteq> disk w f \<longrightarrow> endswith f (''.'' @ fmt))
      \<and> take (length (stdout w)) (stdout w') = stdout w
      \<and> (\<forall>f. [Lit ''Saved image: '', Str f] \<in> set (new_lines w w') \<longrightarrow> endswith f (''.'' @ fmt)))"

text \<open>The footprint of the response handler: it saves images and prints, sends no
  request and touches no file handle.\<close>

definition handler_effect :: "string \<Rightarrow> world \<Rightarrow> world \<Rightarrow> bool" where
  "handler_effect fmt w w' =
     (sent w' = sent w \<and> open_handles w' = open_handles w \<and> next_handle w' = next_handle w
      \<and> saves_only fmt w w')"

text \<open>The paths an \<open>edit\<close> invocation refers to: every source image and the mask, when
  one is given (\<open>if args.mask_path:\<close> takes an empty string for no mask).\<close>

definition referenced_paths :: "args \<Rightarrow> string list" where
  "referenced_paths a =
     arg_image_paths a
     @ (case arg_mask_path a of
          None \<Rightarrow> []
        | Some mask_path \<Rightarrow> if mask_path \<noteq> [] then [mask_path] else [])"


text \<open>What opening files does: the handles \<open>next_handle w, \<dots>\<close> are handed out in order,
  appended to \<open>opened_files\<close> and added to the open handles; nothing else changes.\<close>

definition opening_effect :: "nat list \<Rightarrow> world \<Rightarrow> nat list \<Rightarrow> world \<Rightarrow> bool" where
  "opening_effect opened0 w opened w' =
     (opened = opened0 @ [next_handle w..<next_handle w']
      \<and> next_handle w \<le> next_handle w'
      \<and> open_handles w' = open_handles w \<union> {next_handle w..<next_handle w'}
      \<and> sent w' = sent w \<and> disk w' = disk w \<and> stdout w' = stdout w)"

section \<open>Reference inputs\<close>

text \<open>Elements of a \<open>data\<close> list: one whose payload is the base64 text of \<open>hello\<close>, one
  whose payload cannot be decoded, and one without a payload.\<close>

definition item_hello :: json where
  "item_hello = JObj [(''b64_json'', JStr ''aGVsbG8='')]"



text \<open>Responses of the service: two images; one image; an empty \<open>data\<close> list, without and
  with usage information; and a rejected request.\<close>

definition resp_two_images :: response where
  "resp_two_images =
     \<lparr>status_code = 200, text_body = [],
      json_body = Some (JObj [(''data'', JList [item_hello, item_hello])])\<rparr>"

definition resp_one_image :: response where
  "resp_one_image =
     \<lparr>status_code = 200, text_body = [],
      json_body = Some (JObj [(''data'', JList [JObj [(''b64_json'', JStr ''aGVsbG8='')]])])\<rparr>"

definition resp_empty :: response where
  "resp_empty = \<lparr>status_code = 200, text_body = [], json_body = Some (JObj [(''data'', JList [])])\<rparr>"

definition resp_empty_with_usage :: response where
  "resp_empty_with_usage =
     \<lparr>status_code = 200, text_body = [],
      json_body = Some (JObj [(''data'', JList []),
                              (''usage'', JObj [(''total_tokens'', JInt 5)])])\<rparr>"


text \<open>Environments. In \<open>ev0\<close> only \<open>a.png\<close> exists, no file operation fails, the clock
  advances by one second per reading and the service cannot be reached. \<open>ev1\<close> differs
  in that the first file a run would write cannot be opened; \<open>ev2\<close> in that the source
  image is the JPEG file \<open>photo.jpg\<close> and the service answers with one image.\<close>

definition ev0 :: env where
  "ev0 = \<lparr>api_key = ''k'',
          clock = (\<lambda>n. \<lparr>year = 2025, month = 1, day = 2, hour = 3, minute = 4, second = 5 + n\<rparr>),
          path_exists = (\<lambda>p. p = ''a.png''),
          open_rb_error = (\<lambda>p. None),
          open_wb_error = (\<lambda>p. None),
          write_fault = (\<lambda>p. None),
          transport = (\<lambda>r. Inl (RequestException ''down''))\<rparr>"


definition ev2 :: env where
  "ev2 = ev0\<lparr>path_exists := (\<lambda>p. p = ''photo.jpg''),
            transport := (\<lambda>r. Inr resp_one_image)\<rparr>"

text \<open>Worlds: one in which nothing has happened yet, and one in which another file is
  already open.\<close>

definition w0 :: world where
  "w0 = \<lparr>disk = Map.empty, stdout = [], sent = [], open_handles = {}, next_handle = 3, ticks = 0\<rparr>"

definition w_busy :: world where
  "w_busy = w0\<lparr>open_handles := {1}\<rparr>"

text \<open>Command lines: \<open>create "a red circle" --n 2 --output-compression 80\<close> and
  \<open>edit photo.jpg "add a hat"\<close>.\<close>

definition args_create :: args where
  "args_create =
     \<lparr>arg_prompt = ''a red circle'', arg_n = 2, arg_quality = ''low'', arg_size = ''1024x1024'',
      arg_background = ''opaque'', arg_output_format = ''png'',
      arg_output_compression = Some 80, arg_moderation = Some ''low'', arg_user = None,
      arg_output_prefix = ''gen'', arg_image_paths = [], arg_mask_path = None\<rparr>"

definition args_edit :: args where
  "args_edit =
     \<lparr>arg_prompt = ''add a hat'', arg_n = 1, arg_quality = ''low'', arg_size = ''1024x1024'',
      arg_background = [], arg_output_format = [],
      arg_output_compression = None, arg_moderation = None, arg_user = None,
      arg_output_prefix = ''edi'', arg_image_paths = [''photo.jpg''], arg_mask_path = None\<rparr>"

section \<open>Properties\<close>

subsection \<open>Printing, numerals and timestamps\<close>

lemma print_simps [simp]:
  "disk (print l w) = disk w"
  "stdout (print l w) = stdout w @ [l]"
  "sent (print l w) = sent w"
  "open_handles (print l w) = open_handles w"
  "next_handle (print l w) = next_handle w"
  "ticks (print l w) = ticks w"
  by (simp_all add: print_def)

lemma digit_is_digit: "d < 10 \<Longrightarrow> is_digit (digit d)"
  by (simp add: is_digit_def digit_def)

lemma digit_value: "d < 10 \<Longrightarrow> (of_char (digit d) :: nat) - 48 = d"
  by (simp add: digit_def)

lemma digit_chars:
  "digit 0 = CHR ''0''" "digit 1 = CHR ''1''" "digit 2 = CHR ''2''" "digit 3 = CHR ''3''"
  "digit 4 = CHR ''4''" "digit 5 = CHR ''5''" "digit 6 = CHR ''6''" "digit 7 = CHR ''7''"
  "digit 8 = CHR ''8''" "digit 9 = CHR ''9''" "digit (Suc 0) = CHR ''1''"
  by code_simp+

lemma str_nat_digits: "list_all is_digit (str_nat n)"
proof (induction n rule: str_nat.induct)
  case (1 n)
  show ?case
  proof (cases "n < 10")
    case True
    then show ?thesis by (subst str_nat.simps) (simp add: digit_is_digit)
  next
    case False
    with 1 show ?thesis by (subst str_nat.simps) (simp add: digit_is_digit)
  qed
qed

lemma read_nat_snoc: "read_nat (s @ [c]) = 10 * read_nat s + (of_char c - 48)"
  by (simp add: read_nat_def)

lemma read_nat_str_nat: "read_nat (str_nat n) = n"
proof (induction n rule: str_nat.induct)
  case (1 n)
  show ?case
  proof (cases "n < 10")
    case True
    then show ?thesis by (subst str_nat.simps) (simp add: read_nat_def digit_value)
  next
    case False
    with 1 have "read_nat (str_nat (n div 10)) = n div 10" by simp
    with False show ?thesis
      by (subst str_nat.simps) (simp add: read_nat_snoc digit_value)
  qed
qed

lemma strftime_length: "length (strftime t) = 15"
  by (simp add: strftime_def pad2_def pad4_def)

lemma strftime_shape:
  assumes "i < 15"
  shows "if i = 8 then strftime t ! i = CHR ''_'' else is_digit (strftime t ! i)"
proof -
  have "i \<in> {0,1,2,3,4,5,6,7,8,9,10,11,12,13,14}" using assms by simp arith
  then show ?thesis
    by (auto simp: strftime_def pad2_def pad4_def digit_is_digit nth_Cons')
qed

lemma read_nat_pad2:
  assumes "n < 100"
  shows "read_nat (pad2 n) = n"
proof -
  have "n div 10 < 10" using assms by simp
  then have "n div 10 mod 10 = n div 10" by simp
  then have "read_nat (pad2 n) = 10 * (n div 10) + n mod 10"
    by (simp add: read_nat_def pad2_def digit_value)
  then show ?thesis by simp
qed

lemma read_nat_pad4:
  assumes "n < 10000"
  shows "read_nat (pad4 n) = n"
proof -
  define q1 where "q1 = n div 10"
  define q2 where "q2 = n div 100"
  define q3 where "q3 = n div 1000"
  have a: "n = 10 * q1 + n mod 10" by (simp add: q1_def)
  have "q1 div 10 = q2" by (simp add: q1_def q2_def div_mult2_eq)
  then have b: "q1 = 10 * q2 + q1 mod 10" by (metis mult_div_mod_eq)
  have "q2 div 10 = q3" by (simp add: q3_def q2_def div_mult2_eq)
  then have c: "q2 = 10 * q3 + q2 mod 10" by (metis mult_div_mod_eq)
  have "q3 < 10" using assms by (simp add: q3_def)
  then have d: "q3 mod 10 = q3" by simp
  have "read_nat (pad4 n) = 10 * (10 * (10 * (q3 mod 10) + q2 mod 10) + q1 mod 10) + n mod 10"
    by (simp add: read_nat_def pad4_def digit_value q1_def q2_def q3_def)
  also have "\<dots> = 10 * (10 * q2 + q1 mod 10) + n mod 10"
    using c d by simp
  also have "\<dots> = n" using a b by simp
  finally show ?thesis .
qed

lemma parse_timestamp_strftime:
  assumes "valid_datetime t"
  shows "parse_timestamp (strftime t) = t"
proof -
  have l: "length (pad4 (year t)) = 4" "length (pad2 n) = 2" for n
    by (simp_all add: pad4_def pad2_def)
  from assms have b: "year t < 10000" "month t < 100" "day t < 100" "hour t < 100"
    "minute t < 100" "second t < 100"
    by (simp_all add: valid_datetime_def)
  show ?thesis
    by (simp add: parse_timestamp_def strftime_def l read_nat_pad2 read_nat_pad4 b)
qed

subsection \<open>Base64: decoding inverts encoding\<close>

lemma m3: "(3 :: 8 word) = mask 2" by (simp add: mask_eq_exp_minus_1)

lemma m15: "(0x0f :: 8 word) = mask 4" by (simp add: mask_eq_exp_minus_1)

lemma m63: "(0x3f :: 8 word) = mask 6" by (simp add: mask_eq_exp_minus_1)

lemma suc_sub: "2 \<le> n \<Longrightarrow> Suc (Suc (n - 2)) = n" by simp

lemma byte1: "push_bit 2 (sextet1 a) OR drop_bit 4 (sextet2 a b) = a"
  unfolding sextet1_def sextet2_def m3
  apply (rule bit_eqI)
  apply (auto simp: bit_simps)
  apply (case_tac [!] "2 \<le> n")
  apply (simp_all add: suc_sub)
  done

lemma byte2: "push_bit 4 (sextet2 a b AND 0x0f) OR drop_bit 2 (sextet3 b c) = b"
  unfolding sextet2_def sextet3_def m3 m15
  apply (rule bit_eqI)
  apply (auto simp: bit_simps)
  apply (case_tac [!] "4 \<le> n")
  apply (simp_all add: suc_sub)
  done

lemma byte3: "push_bit 6 (sextet3 b c AND 0x03) OR sextet4 c = c"
  unfolding sextet3_def sextet4_def m3 m15 m63
  apply (rule bit_eqI)
  apply (auto simp: bit_simps)
  done

lemma byte_less: "unat (a :: byte) < 256"
  using unsigned_less [of a, where 'a = nat] by simp

lemma sextet4_less: "unat (sextet4 c) < 64"
  unfolding sextet4_def m63 by (simp add: take_bit_eq_mod unat_mod flip: take_bit_eq_mask)

lemma six_bits_less: "take_bit 6 (x :: byte) = x \<Longrightarrow> unat x < 64"
  by (metis sextet4_less sextet4_def m63 take_bit_eq_mask)

lemma sextet1_less: "unat (sextet1 a) < 64"
  unfolding sextet1_def using byte_less [of a] by (simp add: drop_bit_eq_div unat_div)

lemma sextet2_less: "unat (sextet2 a b) < 64"
proof (rule six_bits_less)
  show "take_bit 6 (sextet2 a b) = sextet2 a b"
    unfolding sextet2_def m3
    by (rule bit_eqI) (auto simp: bit_simps dest: bit_imp_le_length)
qed

lemma sextet3_less: "unat (sextet3 b c) < 64"
proof (rule six_bits_less)
  show "take_bit 6 (sextet3 b c) = sextet3 b c"
    unfolding sextet3_def m15
    by (rule bit_eqI) (auto simp: bit_simps dest: bit_imp_le_length)
qed

lemma word_of_unat: "unat (x :: byte) = n \<Longrightarrow> x = of_nat n"
  by auto

lemma char_of_eq: "char_of (n :: nat) = c \<Longrightarrow> n mod 256 = of_char c"
  by auto

lemma table_inverse: "unat x < 64 \<Longrightarrow> table_a2b_base64 (table_b2a_base64 x) = Some x"
  unfolding table_a2b_base64_def table_b2a_base64_def Let_def
  apply (auto dest: word_of_unat)
  apply (rule word_of_unat [where n = 63, simplified])
  apply arith
  done

lemma b2a_not_pad: "table_b2a_base64 x \<noteq> CHR ''=''"
  unfolding table_b2a_base64_def Let_def
  by (auto dest!: char_of_eq)

lemma b2a_ascii: "(of_char (table_b2a_base64 x) :: nat) \<le> 127"
  unfolding table_b2a_base64_def Let_def by auto

lemmas sextets =
  table_inverse [OF sextet1_less] table_inverse [OF sextet2_less]
  table_inverse [OF sextet3_less] table_inverse [OF sextet4_less] byte1 byte2 byte3

lemma a2b_loop_b64encode: "a2b_loop 0 leftchar pads out (b64encode bs) = Inr (out @ bs)"
proof (induction bs arbitrary: leftchar pads out rule: b64encode.induct)
  case 1
  show ?case by simp
next
  case (2 a)
  show ?case by (simp add: sextets b2a_not_pad del: push_bit_and)
next
  case (3 a b)
  show ?case by (simp add: sextets b2a_not_pad del: push_bit_and)
next
  case (4 a b c rest)
  show ?case by (simp add: sextets b2a_not_pad "4.IH" del: push_bit_and)
qed

lemma b64encode_ascii: "c \<in> set (b64encode bs) \<Longrightarrow> (of_char c :: nat) \<le> 127"
  by (induction bs rule: b64encode.induct) (auto simp: b2a_ascii)

lemma b64decode_b64encode: "b64decode (JStr (b64encode bs)) = Inr bs"
proof -
  have "\<not> (\<exists>c \<in> set (b64encode bs). (of_char c :: nat) > 127)"
    using b64encode_ascii by fastforce
  then show ?thesis
    by (simp add: a2b_base64_def a2b_loop_b64encode)
qed

subsection \<open>Saving an image\<close>

lemma save_Some:
  assumes "save_image_from_b64 ev b64 prefix index fmt w = (Some filename, w')"
  shows "\<exists>image_data. b64decode b64 = Inr image_data
           \<and> filename = image_filename prefix (strftime (clock ev (ticks w))) index fmt
           \<and> open_wb_error ev filename = None \<and> write_fault ev filename = None
           \<and> w' = print [Lit ''Saved image: '', Str filename]
                    (w\<lparr>ticks := Suc (ticks w), disk := (disk w)(filename \<mapsto> image_data)\<rparr>)"
  using assms
  by (auto simp: save_image_from_b64_def Let_def split: sum.splits option.splits prod.splits)

lemma save_succeeds:
  assumes "b64decode b64 = Inr image_data"
    and "open_wb_error ev (image_filename prefix (strftime (clock ev (ticks w))) index fmt) = None"
    and "write_fault ev (image_filename prefix (strftime (clock ev (ticks w))) index fmt) = None"
  shows "fst (save_image_from_b64 ev b64 prefix index fmt w)
           = Some (image_filename prefix (strftime (clock ev (ticks w))) index fmt)"
  using assms by (simp add: save_image_from_b64_def Let_def)

lemma save_fst_Some:
  assumes "fst (save_image_from_b64 ev b64 prefix index fmt w) = Some filename"
  shows "\<exists>image_data. b64decode b64 = Inr image_data
           \<and> filename = image_filename prefix (strftime (clock ev (ticks w))) index fmt
           \<and> snd (save_image_from_b64 ev b64 prefix index fmt w)
               = print [Lit ''Saved image: '', Str filename]
                    (w\<lparr>ticks := Suc (ticks w), disk := (disk w)(filename \<mapsto> image_data)\<rparr>)"
  using assms
  by (auto simp: save_image_from_b64_def Let_def split: sum.splits option.splits prod.splits)



text \<open>
  Claim C8. A successful save of an image with prefix \<open>p\<close>, positional index \<open>i\<close> and
  format \<open>f\<close> writes the file named \<open>p\<close>, an underscore, a timestamp, an underscore,
  a numeral, a dot and \<open>f\<close>: the timestamp has fifteen characters, digits except for the
  underscore after the eighth, and reads back as the clock's date and time; the numeral is
  made of decimal digits and reads back as \<open>i + 1\<close>; and the file is on disk afterwards.
\<close>

theorem save_image_from_b64_filename:
  assumes "fst (save_image_from_b64 ev b64 prefix index fmt w) = Some filename"
    and "valid_datetime (clock ev (ticks w))"
    and "0 \<le> index"
  shows "\<exists>ts num. filename = prefix @ ''_'' @ ts @ ''_'' @ num @ ''.'' @ fmt
           \<and> length ts = 15
           \<and> (\<forall>i<15. if i = 8 then ts ! i = CHR ''_'' else is_digit (ts ! i))
           \<and> parse_timestamp ts = clock ev (ticks w)
           \<and> list_all is_digit num \<and> int (read_nat num) = index + 1
           \<and> disk (snd (save_image_from_b64 ev b64 prefix index fmt w)) filename \<noteq> None"
proof -
  let ?ts = "strftime (clock ev (ticks w))"
  let ?num = "str_nat (nat (index + 1))"
  from save_fst_Some [OF assms(1)] obtain image_data where
    f: "filename = image_filename prefix ?ts index fmt"
    and w': "snd (save_image_from_b64 ev b64 prefix index fmt w)
               = print [Lit ''Saved image: '', Str filename]
                    (w\<lparr>ticks := Suc (ticks w), disk := (disk w)(filename \<mapsto> image_data)\<rparr>)"
    by (elim exE conjE)
  from assms(3) have "str_int (index + 1) = ?num"
    by (simp add: str_int_def)
  with f have 1: "filename = prefix @ ''_'' @ ?ts @ ''_'' @ ?num @ ''.'' @ fmt"
    by (simp add: image_filename_def)
  have 2: "length ?ts = 15" by (rule strftime_length)
  have 3: "\<forall>i<15. if i = 8 then ?ts ! i = CHR ''_'' else is_digit (?ts ! i)"
    by (intro allI impI) (rule strftime_shape)
  have 4: "parse_timestamp ?ts = clock ev (ticks w)"
    by (rule parse_timestamp_strftime [OF assms(2)])
  have 5: "list_all is_digit ?num" by (rule str_nat_digits)
  have 6: "int (read_nat ?num) = index + 1"
    using assms(3) by (simp add: read_nat_str_nat)
  have 7: "disk (snd (save_image_from_b64 ev b64 prefix index fmt w)) filename \<noteq> None"
    by (simp add: w')
  show ?thesis
    by (intro exI [of _ ?ts] exI [of _ ?num] conjI) (rule 1 2 3 4 5 6 7)+
qed

lemma ex_save: "fst (save_image_from_b64 ev0 (JStr ''aGVsbG8='') ''gen'' 0 ''png'' w0) = Some ''gen_20250102_030405_1.png''"
  by code_simp

lemma ex_valid: "valid_datetime (clock ev0 (ticks w0))"
  by (simp add: ev0_def w0_def valid_datetime_def)

theorem save_image_from_b64_filename_witness:
  "fst (save_image_from_b64 ev0 (JStr ''aGVsbG8='') ''gen'' 0 ''png'' w0) = Some ''gen_20250102_030405_1.png''
   \<and> valid_datetime (clock ev0 (ticks w0)) \<and> (0::int) \<le> 0
   \<and> (\<exists>ts num. ''gen_20250102_030405_1.png'' = ''gen'' @ ''_'' @ ts @ ''_'' @ num @ ''.'' @ ''png''
           \<and> length ts = 15
           \<and> (\<forall>i<15. if i = 8 then ts ! i = CHR ''_'' else is_digit (ts ! i))
           \<and> parse_timestamp ts = clock ev0 (ticks w0)
           \<and> list_all is_digit num \<and> int (read_nat num) = 0 + 1
           \<and> disk (snd (save_image_from_b64 ev0 (JStr ''aGVsbG8='') ''gen'' 0 ''png'' w0)) ''gen_20250102_030405_1.png'' \<noteq> None)"
  using save_image_from_b64_filename [OF ex_save ex_valid, of ] ex_save ex_valid by simp

text \<open>
  Claim C7 (round trip). When a save succeeds, the file it wrote holds exactly the bytes
  the payload decodes to; in particular, for the standard base64 encoding of any byte
  sequence \<open>bs\<close> the file holds \<open>bs\<close>.
\<close>

theorem save_image_from_b64_roundtrip:
  assumes "fst (save_image_from_b64 ev payload prefix index fmt w) = Some filename"
  shows "(b64decode payload = Inr bs
            \<longrightarrow> disk (snd (save_image_from_b64 ev payload prefix index fmt w)) filename = Some bs)
       \<and> (payload = JStr (b64encode bs)
            \<longrightarrow> disk (snd (save_image_from_b64 ev payload prefix index fmt w)) filename = Some bs)"
proof -
  from save_fst_Some [OF assms] obtain image_data where
    d: "b64decode payload = Inr image_data"
    and s: "snd (save_image_from_b64 ev payload prefix index fmt w)
               = print [Lit ''Saved image: '', Str filename]
                    (w\<lparr>ticks := Suc (ticks w), disk := (disk w)(filename \<mapsto> image_data)\<rparr>)"
    by (elim exE conjE)
  have w': "disk (snd (save_image_from_b64 ev payload prefix index fmt w)) filename = Some image_data"
    by (simp add: s)
  have 1: "disk (snd (save_image_from_b64 ev payload prefix index fmt w)) filename = Some bs"
    if "b64decode payload = Inr bs"
    using that d w' by simp
  have 2: "b64decode payload = Inr bs" if "payload = JStr (b64encode bs)"
    unfolding that by (rule b64decode_b64encode)
  show ?thesis
  proof (intro conjI impI)
    assume "b64decode payload = Inr bs"
    then show "disk (snd (save_image_from_b64 ev payload prefix index fmt w)) filename = Some bs"
      by (rule 1)
  next
    assume "payload = JStr (b64encode bs)"
    then have "b64decode payload = Inr bs" by (rule 2)
    then show "disk (snd (save_image_from_b64 ev payload prefix index fmt w)) filename = Some bs"
      by (rule 1)
  qed
qed

lemma ex_save2: "fst (save_image_from_b64 ev0 (JStr (b64encode [137, 80, 78, 71, 13])) ''gen'' 0 ''png'' w0) = Some ''gen_20250102_030405_1.png''"
  by code_simp

theorem save_image_from_b64_roundtrip_witness:
  "fst (save_image_from_b64 ev0 (JStr (b64encode [137, 80, 78, 71, 13])) ''gen'' 0 ''png'' w0) = Some ''gen_20250102_030405_1.png''
   \<and> b64encode [137, 80, 78, 71, 13] = ''iVBORw0=''
   \<and> disk (snd (save_image_from_b64 ev0 (JStr ''iVBORw0='') ''gen'' 0 ''png'' w0)) ''gen_20250102_030405_1.png'' = Some [137, 80, 78, 71, 13]"
proof -
  have e: "b64encode [137, 80, 78, 71, 13] = ''iVBORw0=''" by code_simp
  from save_image_from_b64_roundtrip [OF ex_save2, of "[137, 80, 78, 71, 13]"] ex_save2 e
  show ?thesis by simp
qed

subsection \<open>Responses that are not 200\<close>



subsection \<open>The creation payload\<close>

text \<open>
  Claim C3. The creation payload has the key \<open>output_compression\<close> if and only if a
  compression value was supplied and the output format is \<open>jpeg\<close> or \<open>webp\<close>; when
  present its value is the supplied one, and for every other format (\<open>png\<close> included) the
  key is absent.
\<close>

theorem create_payload_output_compression:
  "(''output_compression'' \<in> fst ` set (create_payload a))
     = (arg_output_compression a \<noteq> None \<and> arg_output_format a \<in> {''jpeg'', ''webp''})
   \<and> map_of (create_payload a) ''output_compression''
     = (if arg_output_format a \<in> {''jpeg'', ''webp''}
        then map_option JInt (arg_output_compression a) else None)"
proof -
  have m: "map_of (create_payload a) ''output_compression''
     = (if arg_output_format a \<in> {''jpeg'', ''webp''}
        then map_option JInt (arg_output_compression a) else None)"
    by (cases "arg_output_compression a")
       (simp_all add: create_payload_def Let_def update_conv')
  have "(''output_compression'' \<in> fst ` set (create_payload a))
          = (map_of (create_payload a) ''output_compression'' \<noteq> None)"
    by (simp add: map_of_eq_None_iff)
  with m show ?thesis by (cases "arg_output_compression a") simp_all
qed

theorem create_payload_output_compression_witness:
  "''output_compression'' \<notin> fst ` set (create_payload args_create)
   \<and> ''output_compression'' \<in> fst ` set (create_payload (args_create\<lparr>arg_output_format := ''jpeg''\<rparr>))
   \<and> map_of (create_payload (args_create\<lparr>arg_output_format := ''webp''\<rparr>)) ''output_compression'' = Some (JInt 80)
   \<and> ''output_compression'' \<notin> fst ` set (create_payload (args_create\<lparr>arg_output_format := ''jpeg'', arg_output_compression := None\<rparr>))"
  using create_payload_output_compression [of args_create]
    create_payload_output_compression [of "args_create\<lparr>arg_output_format := ''jpeg''\<rparr>"]
    create_payload_output_compression [of "args_create\<lparr>arg_output_format := ''webp''\<rparr>"]
    create_payload_output_compression [of "args_create\<lparr>arg_output_format := ''jpeg'', arg_output_compression := None\<rparr>"]
  by (simp add: args_create_def)

subsection \<open>An empty data list\<close>

text \<open>
  Claim C1 fails as stated. A 200 response whose body is
  \<open>{"data": [], "usage": {"total_tokens": 5}}\<close> prints the usage report and never the
  line that no images were generated: that line sits in an \<open>elif\<close> behind the usage test.
\<close>

theorem handle_api_response_empty_data_counterexample:
  "status_code resp_empty_with_usage = 200
   \<and> json_body resp_empty_with_usage
       = Some (JObj [(''data'', JList []), (''usage'', JObj [(''total_tokens'', JInt 5)])])
   \<and> no_images_generated
       \<notin> set (stdout (snd (handle_api_response ev0 resp_empty_with_usage ''gen'' ''png'' w0)))
   \<and> stdout (snd (handle_api_response ev0 resp_empty_with_usage ''gen'' ''png'' w0))
       = [[Lit (CHR 0x0A # ''Usage Information:'')],
          [Lit ''  Total Tokens: '', Val (JInt 5)],
          [Lit ''  Input Tokens: '', Val JNull],
          [Lit ''  Output Tokens: '', Val JNull]]"
  by (simp add: resp_empty_with_usage_def handle_api_response_def process_body_def
      images_stage_def data_is_list_def usage_stage_def has_usage_def usage_report_def
      no_images_generated_def w0_def Let_def)

lemma images_stage_empty:
  assumes "map_of kvs ''data'' = Some (JList [])"
  shows "images_stage ev (JObj kvs) output_prefix fmt w = (None, w)"
  using assms by (simp add: images_stage_def data_is_list_def)

lemma usage_stage_empty:
  assumes "map_of kvs ''data'' = Some (JList [])"
    and "map_of kvs ''usage'' = None \<or> map_of kvs ''usage'' = Some JNull"
  shows "usage_stage (JObj kvs) w = (None, print no_images_generated w)"
  using assms by (auto simp: usage_stage_def has_usage_def data_is_empty_def)

lemma usage_report_lines:
  "\<exists>ls. stdout (snd (usage_report u w)) = stdout w @ [Lit (CHR 0x0A # ''Usage Information:'')] # ls
        \<and> no_images_generated \<notin> set ls"
  by (auto simp: usage_report_def Let_def no_images_generated_def
      split: sum.splits bool.splits)

lemma handle_exception_lines:
  "\<exists>ls. stdout (snd (handle_exception resp e w)) = stdout w @ ls
        \<and> no_images_generated \<notin> set ls"
  by (auto simp: handle_exception_def Let_def no_images_generated_def split: option.splits)

lemma usage_stage_with_usage:
  assumes "map_of kvs ''usage'' = Some u" and "u \<noteq> JNull"
  shows "usage_stage (JObj kvs) w = usage_report u w"
  using assms by (simp add: usage_stage_def has_usage_def)

lemma handler_with_usage:
  assumes "status_code resp = 200"
    and "json_body resp = Some (JObj kvs)"
    and "map_of kvs ''data'' = Some (JList [])"
    and "map_of kvs ''usage'' = Some u" and "u \<noteq> JNull"
  shows "\<exists>ls. stdout (snd (handle_api_response ev resp output_prefix fmt w))
              = stdout w @ [Lit (CHR 0x0A # ''Usage Information:'')] # ls
            \<and> no_images_generated \<notin> set ls"
proof -
  have p: "process_body ev (JObj kvs) output_prefix fmt w = usage_report u w"
    by (simp add: process_body_def images_stage_empty [OF assms(3)]
        usage_stage_with_usage [OF assms(4,5)])
  obtain r w1 where r: "usage_report u w = (r, w1)" by (cases "usage_report u w")
  from usage_report_lines [of u w] r obtain ls where
    l: "stdout w1 = stdout w @ [Lit (CHR 0x0A # ''Usage Information:'')] # ls"
    and n: "no_images_generated \<notin> set ls"
    by auto
  show ?thesis
  proof (cases r)
    case None
    then have "snd (handle_api_response ev resp output_prefix fmt w) = w1"
      using assms(1,2) p r by (simp add: handle_api_response_def)
    with l n show ?thesis by auto
  next
    case (Some e)
    then have h: "handle_api_response ev resp output_prefix fmt w = handle_exception resp e w1"
      using assms(1,2) p r by (simp add: handle_api_response_def)
    from handle_exception_lines [of resp e w1] obtain ls' where
      "stdout (snd (handle_exception resp e w1)) = stdout w1 @ ls'"
      and "no_images_generated \<notin> set ls'"
      by auto
    with l n h show ?thesis by auto
  qed
qed

text \<open>
  Claim C1, amended. For a 200 response whose body has an empty \<open>data\<close> list: when
  \<open>usage\<close> is absent or null the handler prints exactly the line that no images were
  generated and raises nothing; when \<open>usage\<close> is not null it prints the usage report
  and never that line. The line differs from both warnings about an unexpected structure.
\<close>

theorem handle_api_response_no_images:
  assumes "status_code resp = 200"
    and "json_body resp = Some (JObj kvs)"
    and "map_of kvs ''data'' = Some (JList [])"
  shows "(map_of kvs ''usage'' = None \<or> map_of kvs ''usage'' = Some JNull \<longrightarrow>
            handle_api_response ev resp output_prefix fmt w = (None, print no_images_generated w))
       \<and> (\<forall>u. map_of kvs ''usage'' = Some u \<longrightarrow> u \<noteq> JNull \<longrightarrow>
            (\<exists>ls. stdout (snd (handle_api_response ev resp output_prefix fmt w))
                     = stdout w @ [Lit (CHR 0x0A # ''Usage Information:'')] # ls
                   \<and> no_images_generated \<notin> set ls))
       \<and> no_images_generated \<noteq> unexpected_structure (JObj kvs)
       \<and> no_images_generated \<noteq> no_usage_warning"
proof (intro conjI allI impI)
  assume u: "map_of kvs ''usage'' = None \<or> map_of kvs ''usage'' = Some JNull"
  have "process_body ev (JObj kvs) output_prefix fmt w = (None, print no_images_generated w)"
    by (simp add: process_body_def images_stage_empty [OF assms(3)]
        usage_stage_empty [OF assms(3) u])
  then show "handle_api_response ev resp output_prefix fmt w = (None, print no_images_generated w)"
    using assms(1,2) by (simp add: handle_api_response_def)
next
  fix u
  assume "map_of kvs ''usage'' = Some u" and "u \<noteq> JNull"
  then show "\<exists>ls. stdout (snd (handle_api_response ev resp output_prefix fmt w))
                     = stdout w @ [Lit (CHR 0x0A # ''Usage Information:'')] # ls
                   \<and> no_images_generated \<notin> set ls"
    by (rule handler_with_usage [OF assms])
next
  show "no_images_generated \<noteq> unexpected_structure (JObj kvs)"
    by (simp add: no_images_generated_def unexpected_structure_def)
  show "no_images_generated \<noteq> no_usage_warning"
    by (simp add: no_images_generated_def no_usage_warning_def)
qed

theorem handle_api_response_no_images_witness:
  "status_code resp_empty = 200
   \<and> json_body resp_empty = Some (JObj [(''data'', JList [])])
   \<and> map_of [(''data'', JList [])] ''data'' = Some (JList [])
   \<and> map_of [(''data'', JList [])] ''usage'' = None
   \<and> handle_api_response ev0 resp_empty ''gen'' ''png'' w0 = (None, print no_images_generated w0)
   \<and> stdout (snd (handle_api_response ev0 resp_empty ''gen'' ''png'' w0))
       = [[Lit ''No images were generated. This might be due to a safety filter or other issue.'']]"
proof -
  have h1: "status_code resp_empty = 200" by (simp add: resp_empty_def)
  have h2: "json_body resp_empty = Some (JObj [(''data'', JList [])])" by (simp add: resp_empty_def)
  have h3: "map_of [(''data'', JList [])] ''data'' = Some (JList [])" by simp
  have h4: "map_of [(''data'', JList [])] ''usage'' = None" by simp
  from handle_api_response_no_images [OF h1 h2 h3, of ev0 "''gen''" "''png''" w0] h4
  have t: "handle_api_response ev0 resp_empty ''gen'' ''png'' w0 = (None, print no_images_generated w0)"
    by (elim conjE) simp
  have e: "stdout (snd (handle_api_response ev0 resp_empty ''gen'' ''png'' w0))
       = [[Lit ''No images were generated. This might be due to a safety filter or other issue.'']]"
    unfolding t by (simp add: w0_def no_images_generated_def)
  from h1 h2 h3 h4 t e show ?thesis by (intro conjI)
qed

subsection \<open>The loop over the data list\<close>

lemma b64_field_Some:
  assumes "b64_field item = Some b64"
  shows "py_in ''b64_json'' item = Inr True \<and> py_getitem item ''b64_json'' = Inr b64"
  using assms by (cases item) simp_all

lemma handle_items_step_payload:
  assumes "b64_field item = Some b64"
  shows "handle_items ev output_prefix fmt i (item # rest) w
           = handle_items ev output_prefix fmt (i + 1) rest
               (snd (save_image_from_b64 ev b64 output_prefix i fmt w))"
  using b64_field_Some [OF assms] by simp

lemma handle_items_step_warning:
  assumes "py_in ''b64_json'' item = Inr False"
  shows "handle_items ev output_prefix fmt i (item # rest) w
           = handle_items ev output_prefix fmt (i + 1) rest (print (item_warning i item) w)"
  using assms by simp

lemma handle_items_fold:
  assumes "\<forall>item \<in> set items. b64_field item \<noteq> None \<or> py_in ''b64_json'' item = Inr False"
  shows "handle_items ev output_prefix fmt (int i) items w
           = (None, fold (handle_item ev output_prefix fmt) (enumerate i items) w)"
  using assms
proof (induction items arbitrary: i w)
  case Nil
  show ?case by simp
next
  case (Cons item rest)
  have i: "int i + 1 = int (Suc i)" by simp
  from Cons.prems have rest: "\<forall>item \<in> set rest. b64_field item \<noteq> None \<or> py_in ''b64_json'' item = Inr False"
    by simp
  show ?case
  proof (cases "b64_field item")
    case (Some b64)
    have h: "handle_item ev output_prefix fmt (i, item) w
               = snd (save_image_from_b64 ev b64 output_prefix (int i) fmt w)"
      by (simp add: handle_item_def Some)
    show ?thesis
      unfolding handle_items_step_payload [OF Some] i Cons.IH [OF rest]
      by (simp add: h)
  next
    case None
    with Cons.prems have f: "py_in ''b64_json'' item = Inr False" by simp
    have h: "handle_item ev output_prefix fmt (i, item) w = print (item_warning (int i) item) w"
      by (simp add: handle_item_def None)
    show ?thesis
      unfolding handle_items_step_warning [OF f] i Cons.IH [OF rest]
      by (simp add: h)
  qed
qed


lemma fold_handle_item_persist:
  assumes "\<forall>item \<in> set items. b64_field item \<noteq> None"
  shows "fold (handle_item ev output_prefix fmt) (enumerate i items) w
           = fold (persist ev output_prefix fmt) (enumerate i (map (the \<circ> b64_field) items)) w"
  using assms
proof (induction items arbitrary: i w)
  case Nil
  show ?case by simp
next
  case (Cons item rest)
  from Cons.prems obtain b64 where b: "b64_field item = Some b64" by auto
  from Cons.prems have rest: "\<forall>item \<in> set rest. b64_field item \<noteq> None" by simp
  have h: "handle_item ev output_prefix fmt (i, item) w = persist ev output_prefix fmt (i, b64) w"
    by (simp add: handle_item_def persist_def b)
  show ?case
    by (simp add: h b Cons.IH [OF rest])
qed

lemma enumerate_fst: "map fst (enumerate i xs) = [i..<i + length xs]"
  by (simp add: enumerate_eq_zip)

text \<open>
  Claim C4. For a 200 response whose \<open>data\<close> is a list of \<open>K\<close> elements that all carry a
  payload, the handler is \<open>K\<close> calls of the persister, one per element in order, with the
  positions \<open>0, \<dots>, K - 1\<close>, followed by the usage stage.
\<close>

theorem handle_api_response_persists_each:
  assumes "status_code resp = 200"
    and "json_body resp = Some (JObj kvs)"
    and "map_of kvs ''data'' = Some (JList items)"
    and "\<forall>item \<in> set items. b64_field item \<noteq> None"
  shows "handle_api_response ev resp output_prefix fmt w
           = report_usage resp (JObj kvs)
               (fold (persist ev output_prefix fmt)
                  (enumerate 0 (map (the \<circ> b64_field) items)) w)
       \<and> map fst (enumerate 0 (map (the \<circ> b64_field) items)) = [0..<length items]"
proof -
  let ?w1 = "fold (persist ev output_prefix fmt) (enumerate 0 (map (the \<circ> b64_field) items)) w"
  from assms(4) have ok: "\<forall>item \<in> set items.
      b64_field item \<noteq> None \<or> py_in ''b64_json'' item = Inr False"
    by simp
  have "handle_items ev output_prefix fmt (int 0) items w = (None, ?w1)"
    unfolding handle_items_fold [OF ok] fold_handle_item_persist [OF assms(4)] ..
  then have "images_stage ev (JObj kvs) output_prefix fmt w = (None, ?w1)"
    using assms(3) by (simp add: images_stage_def data_is_list_def)
  then have "process_body ev (JObj kvs) output_prefix fmt w = usage_stage (JObj kvs) ?w1"
    by (simp add: process_body_def)
  then have 1: "handle_api_response ev resp output_prefix fmt w = report_usage resp (JObj kvs) ?w1"
    using assms(1,2)
    by (simp add: handle_api_response_def report_usage_def split: prod.split option.split)
  have 2: "map fst (enumerate 0 (map (the \<circ> b64_field) items)) = [0..<length items]"
    by (simp add: enumerate_fst)
  from 1 2 show ?thesis by (intro conjI)
qed

lemma ex_two_images_stdout:
  "stdout (snd (handle_api_response ev0 resp_two_images ''gen'' ''png'' w0))
     = [[Lit ''Saved image: '', Str ''gen_20250102_030405_1.png''],
        [Lit ''Saved image: '', Str ''gen_20250102_030406_2.png'']]"
  by code_simp

theorem handle_api_response_persists_each_witness:
  "status_code resp_two_images = 200
   \<and> json_body resp_two_images = Some (JObj [(''data'', JList [item_hello, item_hello])])
   \<and> map_of [(''data'', JList [item_hello, item_hello])] ''data'' = Some (JList [item_hello, item_hello])
   \<and> b64_field item_hello = Some (JStr ''aGVsbG8='')
   \<and> handle_api_response ev0 resp_two_images ''gen'' ''png'' w0
       = report_usage resp_two_images (JObj [(''data'', JList [item_hello, item_hello])])
           (fold (persist ev0 ''gen'' ''png'')
              (enumerate 0 (map (the \<circ> b64_field) [item_hello, item_hello])) w0)
   \<and> enumerate 0 (map (the \<circ> b64_field) [item_hello, item_hello])
       = [(0, JStr ''aGVsbG8=''), (1, JStr ''aGVsbG8='')]
   \<and> stdout (snd (handle_api_response ev0 resp_two_images ''gen'' ''png'' w0))
       = [[Lit ''Saved image: '', Str ''gen_20250102_030405_1.png''],
          [Lit ''Saved image: '', Str ''gen_20250102_030406_2.png'']]"
proof -
  have h1: "status_code resp_two_images = 200" by (simp add: resp_two_images_def)
  have h2: "json_body resp_two_images = Some (JObj [(''data'', JList [item_hello, item_hello])])"
    by (simp add: resp_two_images_def)
  have h3: "map_of [(''data'', JList [item_hello, item_hello])] ''data''
              = Some (JList [item_hello, item_hello])" by simp
  have h4: "\<forall>item \<in> set [item_hello, item_hello]. b64_field item \<noteq> None"
    by (simp add: item_hello_def)
  from handle_api_response_persists_each [OF h1 h2 h3 h4, of ev0 "''gen''" "''png''" w0]
  have t: "handle_api_response ev0 resp_two_images ''gen'' ''png'' w0
       = report_usage resp_two_images (JObj [(''data'', JList [item_hello, item_hello])])
           (fold (persist ev0 ''gen'' ''png'')
              (enumerate 0 (map (the \<circ> b64_field) [item_hello, item_hello])) w0)"
    by (elim conjE)
  have e: "enumerate 0 (map (the \<circ> b64_field) [item_hello, item_hello])
       = [(0, JStr ''aGVsbG8=''), (1, JStr ''aGVsbG8='')]"
    by (simp add: item_hello_def)
  have h5: "b64_field item_hello = Some (JStr ''aGVsbG8='')" by (simp add: item_hello_def)
  from h1 h2 h3 h5 t e ex_two_images_stdout show ?thesis by (intro conjI)
qed













subsection \<open>The footprint of the response handler\<close>

lemma extends_iff: "(take (length xs) ys = xs) = (\<exists>ls. ys = xs @ ls)"
  by (metis append_eq_conv_conj append_take_drop_id)

lemma saves_only_refl: "saves_only fmt w w"
  by (simp add: saves_only_def new_lines_def)

lemma saves_only_trans:
  assumes "saves_only fmt w w1" and "saves_only fmt w1 w2"
  shows "saves_only fmt w w2"
proof -
  from assms(1) obtain l1 where l1: "stdout w1 = stdout w @ l1"
    unfolding saves_only_def extends_iff by blast
  from assms(2) obtain l2 where l2: "stdout w2 = stdout w1 @ l2"
    unfolding saves_only_def extends_iff by blast
  from assms l1 l2 show ?thesis
    by (simp add: saves_only_def new_lines_def) metis
qed

lemma saves_only_print:
  assumes "\<And>f. l \<noteq> [Lit ''Saved image: '', Str f]"
  shows "saves_only fmt w (print l w)"
  using assms by (auto simp: saves_only_def new_lines_def)

lemma saves_only_same:
  assumes "disk w' = disk w" and "stdout w' = stdout w"
  shows "saves_only fmt w w'"
  using assms by (simp add: saves_only_def new_lines_def)

lemma handler_effect_refl: "handler_effect fmt w w"
  by (simp add: handler_effect_def saves_only_refl)

lemma handler_effect_trans:
  assumes "handler_effect fmt w w1" and "handler_effect fmt w1 w2"
  shows "handler_effect fmt w w2"
  using assms saves_only_trans [of fmt w w1 w2] by (simp add: handler_effect_def)

lemma handler_effect_print:
  assumes "\<And>f. l \<noteq> [Lit ''Saved image: '', Str f]"
  shows "handler_effect fmt w (print l w)"
  using saves_only_print [OF assms] by (simp add: handler_effect_def)

lemma endswith_append: "endswith (xs @ ys) ys"
  by (simp add: endswith_def)

lemma image_filename_endswith:
  "endswith (image_filename prefix ts i fmt) (''.'' @ fmt)"
proof -
  have "image_filename prefix ts i fmt = (prefix @ ''_'' @ ts @ ''_'' @ str_int (i + 1)) @ (''.'' @ fmt)"
    by (simp add: image_filename_def)
  then show ?thesis by (simp only: endswith_append)
qed

lemma handler_effect_save:
  "handler_effect fmt w (snd (save_image_from_b64 ev b64 prefix i fmt w))"
  using image_filename_endswith [of prefix "strftime (clock ev (ticks w))" i fmt]
  by (auto simp: save_image_from_b64_def Let_def handler_effect_def saves_only_def new_lines_def
      split: sum.splits option.splits prod.splits)

lemma handler_effect_handle_items:
  "handler_effect fmt w (snd (handle_items ev output_prefix fmt i items w))"
proof (induction items arbitrary: i w)
  case Nil
  show ?case by (simp add: handler_effect_refl)
next
  case (Cons item rest)
  have w: "handler_effect fmt w (print (item_warning i item) w)"
    by (rule handler_effect_print) (simp add: item_warning_def)
  show ?case
    by (auto simp: handler_effect_refl split: sum.split bool.split
        intro: handler_effect_trans [OF handler_effect_save Cons.IH]
               handler_effect_trans [OF w Cons.IH])
qed

lemma handler_effect_images_stage:
  "handler_effect fmt w (snd (images_stage ev data output_prefix fmt w))"
proof -
  have u: "handler_effect fmt w (print (unexpected_structure data) w)"
    by (rule handler_effect_print) (simp add: unexpected_structure_def)
  show ?thesis
    by (auto simp: images_stage_def handler_effect_refl handler_effect_handle_items u
        split: sum.split bool.split json.split)
qed

lemma handler_effect_usage_report:
  "handler_effect fmt w (snd (usage_report usage w))"
  by (auto simp: usage_report_def Let_def handler_effect_def saves_only_def new_lines_def
      split: sum.split bool.split)

lemma handler_effect_usage_stage:
  "handler_effect fmt w (snd (usage_stage data w))"
proof -
  have a: "handler_effect fmt w (print no_images_generated w)"
    by (rule handler_effect_print) (simp add: no_images_generated_def)
  have b: "handler_effect fmt w (print no_usage_warning w)"
    by (rule handler_effect_print) (simp add: no_usage_warning_def)
  show ?thesis
    by (auto simp: usage_stage_def handler_effect_refl handler_effect_usage_report a b
        split: sum.split bool.split)
qed

lemma handler_effect_process_body:
  "handler_effect fmt w (snd (process_body ev data output_prefix fmt w))"
proof (cases "images_stage ev data output_prefix fmt w")
  case (Pair r w1)
  then have 1: "handler_effect fmt w w1"
    using handler_effect_images_stage [of fmt w ev data output_prefix] by simp
  show ?thesis
  proof (cases r)
    case None
    with Pair have "process_body ev data output_prefix fmt w = usage_stage data w1"
      by (simp add: process_body_def)
    then show ?thesis
      using handler_effect_trans [OF 1 handler_effect_usage_stage] by simp
  next
    case (Some e)
    with Pair have "process_body ev data output_prefix fmt w = (Some e, w1)"
      by (simp add: process_body_def)
    then show ?thesis using 1 by simp
  qed
qed

lemma handler_effect_handle_exception:
  "handler_effect fmt w (snd (handle_exception resp e w))"
  by (auto simp: handle_exception_def Let_def handler_effect_def saves_only_def new_lines_def
      split: option.split)

lemma handler_effect_handle_api_response:
  "handler_effect fmt w (snd (handle_api_response ev resp output_prefix fmt w))"
proof (cases "status_code resp = 200")
  case True
  show ?thesis
  proof (cases "json_body resp")
    case None
    with True show ?thesis
      by (simp add: handle_api_response_def handler_effect_handle_exception)
  next
    case (Some data)
    obtain r w1 where p: "process_body ev data output_prefix fmt w = (r, w1)"
      by (cases "process_body ev data output_prefix fmt w")
    then have 1: "handler_effect fmt w w1"
      using handler_effect_process_body [of fmt w ev data output_prefix] by simp
    show ?thesis
    proof (cases r)
      case None
      with True Some p 1 show ?thesis by (simp add: handle_api_response_def)
    next
      case (Some e)
      with True \<open>json_body resp = Some data\<close> p
      have "handle_api_response ev resp output_prefix fmt w = handle_exception resp e w1"
        by (simp add: handle_api_response_def)
      then show ?thesis
        using handler_effect_trans [OF 1 handler_effect_handle_exception] by simp
    qed
  qed
next
  case False
  then show ?thesis
    by (auto simp: handle_api_response_def Let_def handler_effect_def saves_only_def new_lines_def
        split: option.split)
qed

lemma handle_exception_no_raise:
  assumes "json_body resp \<noteq> None \<or> is_JSONDecodeError e"
  shows "fst (handle_exception resp e w) = None"
  using assms by (auto simp: handle_exception_def Let_def split: option.split)

lemma handle_api_response_no_raise:
  "fst (handle_api_response ev resp output_prefix fmt w) = None"
  by (auto simp: handle_api_response_def Let_def handle_exception_no_raise
      is_JSONDecodeError_def split: option.split prod.split)

subsection \<open>The edit command\<close>

lemma opening_effect_refl: "opening_effect opened0 w opened0 w"
  by (simp add: opening_effect_def)

lemma opening_effect_open_rb:
  assumes "open_rb ev path w = (Inr h, w')"
  shows "opening_effect opened0 w (opened0 @ [h]) w'"
  using assms
  by (auto simp: open_rb_def opening_effect_def split: option.splits)

lemma open_rb_fails:
  assumes "open_rb ev path w = (Inl e, w')"
  shows "w' = w"
  using assms by (auto simp: open_rb_def split: option.splits)

lemma opening_effect_trans:
  assumes "opening_effect o0 w o1 w1" and "opening_effect o1 w1 o2 w2"
  shows "opening_effect o0 w o2 w2"
proof -
  from assms have le: "next_handle w \<le> next_handle w1" "next_handle w1 \<le> next_handle w2"
    by (simp_all add: opening_effect_def)
  then have u: "[next_handle w..<next_handle w1] @ [next_handle w1..<next_handle w2]
              = [next_handle w..<next_handle w2]"
    by (metis le_Suc_ex upt_add_eq_append)
  from le have s: "{next_handle w..<next_handle w1} \<union> {next_handle w1..<next_handle w2}
              = {next_handle w..<next_handle w2}"
    by auto
  from assms u s le show ?thesis
    by (simp add: opening_effect_def Un_assoc)
qed

lemma open_images_effect:
  assumes "open_images ev paths files0 opened0 w = (r, files, opened, w')"
  shows "opening_effect opened0 w opened w'
       \<and> (r = None \<longrightarrow> (\<forall>p \<in> set paths. path_exists ev p))"
  using assms
proof (induction paths arbitrary: files0 opened0 w)
  case Nil
  then show ?case by (simp add: opening_effect_refl)
next
  case (Cons image_path rest)
  show ?case
  proof (cases "path_exists ev image_path")
    case False
    with Cons.prems show ?thesis by (auto simp: opening_effect_refl)
  next
    case True
    obtain x w1 where o: "open_rb ev image_path w = (x, w1)" by (cases "open_rb ev image_path w")
    show ?thesis
    proof (cases x)
      case (Inl e)
      with o have "w1 = w" by (simp add: open_rb_fails)
      with Cons.prems True o Inl show ?thesis by (auto simp: opening_effect_refl)
    next
      case (Inr h)
      with Cons.prems True o have
        "open_images ev rest (files0 @ [(''image[]'', (basename image_path, h))])
           (opened0 @ [h]) w1 = (r, files, opened, w')"
        by simp
      from Cons.IH [OF this]
      have 1: "opening_effect (opened0 @ [h]) w1 opened w'"
        and 2: "r = None \<longrightarrow> (\<forall>p \<in> set rest. path_exists ev p)"
        by simp_all
      from o Inr have "opening_effect opened0 w (opened0 @ [h]) w1"
        by (simp add: opening_effect_open_rb)
      from opening_effect_trans [OF this 1] 2 True show ?thesis by simp
    qed
  qed
qed

lemma open_mask_effect:
  assumes "open_mask ev mask_path files0 opened0 w = (r, files, opened, w')"
  shows "opening_effect opened0 w opened w' \<and> (r = None \<longrightarrow> path_exists ev mask_path)"
proof (cases "path_exists ev mask_path")
  case False
  with assms show ?thesis by (auto simp: open_mask_def opening_effect_refl)
next
  case True
  obtain x w1 where o: "open_rb ev mask_path w = (x, w1)" by (cases "open_rb ev mask_path w")
  show ?thesis
  proof (cases x)
    case (Inl e)
    with o have "w1 = w" by (simp add: open_rb_fails)
    with assms True o Inl show ?thesis by (auto simp: open_mask_def opening_effect_refl)
  next
    case (Inr h)
    with assms True o have "opened = opened0 @ [h]" and "w' = w1"
      by (auto simp: open_mask_def)
    with o Inr True show ?thesis by (simp add: opening_effect_open_rb)
  qed
qed

lemma open_files_effect:
  assumes "open_files ev a w = (r, files, opened, w')"
  shows "opening_effect [] w opened w'
       \<and> (r = None \<longrightarrow> (\<forall>p \<in> set (referenced_paths a). path_exists ev p))"
proof -
  obtain r1 f1 o1 w1 where i: "open_images ev (arg_image_paths a) [] [] w = (r1, f1, o1, w1)"
    by (cases "open_images ev (arg_image_paths a) [] [] w") auto
  from open_images_effect [OF i]
  have 1: "opening_effect [] w o1 w1"
    and 2: "r1 = None \<longrightarrow> (\<forall>p \<in> set (arg_image_paths a). path_exists ev p)"
    by simp_all
  show ?thesis
  proof (cases r1)
    case (Some e)
    with assms i 1 show ?thesis by (auto simp: open_files_def)
  next
    case None
    show ?thesis
    proof (cases "arg_mask_path a")
      case no_mask: None
      with assms i None 1 2 show ?thesis
        by (auto simp: open_files_def referenced_paths_def)
    next
      case (Some mask_path)
      show ?thesis
      proof (cases "mask_path = []")
        case True
        with assms i None Some 1 2 show ?thesis
          by (auto simp: open_files_def referenced_paths_def)
      next
        case False
        with assms i None Some
        have m: "open_mask ev mask_path f1 o1 w1 = (r, files, opened, w')"
          by (simp add: open_files_def)
        from open_mask_effect [OF m]
        have 3: "opening_effect o1 w1 opened w'" and 4: "r = None \<longrightarrow> path_exists ev mask_path"
          by simp_all
        from opening_effect_trans [OF 1 3] 2 4 None Some False show ?thesis
          by (auto simp: referenced_paths_def)
      qed
    qed
  qed
qed

lemma close_all_effect:
  "open_handles (close_all hs w) = open_handles w - set hs
   \<and> next_handle (close_all hs w) = next_handle w
   \<and> sent (close_all hs w) = sent w
   \<and> disk (close_all hs w) = disk w
   \<and> stdout (close_all hs w) = stdout w"
  unfolding close_all_def
  by (induction hs arbitrary: w) (auto simp: close_def)

lemma edit_announce_effect:
  "sent (edit_announce a w) = sent w \<and> open_handles (edit_announce a w) = open_handles w
   \<and> next_handle (edit_announce a w) = next_handle w
   \<and> saves_only fmt w (edit_announce a w)"
  by (auto simp: edit_announce_def Let_def saves_only_def new_lines_def)

lemma except_RequestException_effect:
  "sent (snd (except_RequestException (r, w))) = sent w
   \<and> open_handles (snd (except_RequestException (r, w))) = open_handles w
   \<and> next_handle (snd (except_RequestException (r, w))) = next_handle w
   \<and> saves_only fmt w (snd (except_RequestException (r, w)))"
  by (auto simp: except_RequestException_def saves_only_def new_lines_def split: option.split)

lemma try_request_effect:
  "sent (snd (try_request ev req output_prefix fmt w)) = sent w @ [req]
   \<and> open_handles (snd (try_request ev req output_prefix fmt w)) = open_handles w
   \<and> next_handle (snd (try_request ev req output_prefix fmt w)) = next_handle w
   \<and> saves_only fmt w (snd (try_request ev req output_prefix fmt w))"
proof -
  let ?w1 = "w\<lparr>sent := sent w @ [req]\<rparr>"
  have s1: "saves_only fmt w ?w1" by (rule saves_only_same) simp_all
  show ?thesis
  proof (cases "transport ev req")
    case (Inl e)
    then have t: "try_request ev req output_prefix fmt w = except_RequestException (Some e, ?w1)"
      by (simp add: try_request_def post_def)
    from except_RequestException_effect [of "Some e" ?w1 fmt] s1 show ?thesis
      unfolding t by (auto intro: saves_only_trans)
  next
    case (Inr resp)
    obtain r w2 where h: "handle_api_response ev resp output_prefix fmt ?w1 = (r, w2)"
      by (cases "handle_api_response ev resp output_prefix fmt ?w1")
    from Inr h have t: "try_request ev req output_prefix fmt w = except_RequestException (r, w2)"
      by (simp add: try_request_def post_def)
    from handler_effect_handle_api_response [of fmt ?w1 ev resp output_prefix] h
    have e: "handler_effect fmt ?w1 w2" by simp
    then have s2: "saves_only fmt w w2"
      using saves_only_trans [OF s1] by (simp add: handler_effect_def)
    from except_RequestException_effect [of r w2 fmt] e s2 show ?thesis
      unfolding t by (auto simp: handler_effect_def intro: saves_only_trans)
  qed
qed

lemma edit_image_effect:
  "\<exists>n. next_handle (snd (edit_image ev a w)) = next_handle w + n
      \<and> open_handles (snd (edit_image ev a w))
          = open_handles w - {next_handle w..<next_handle w + n}
      \<and> saves_only ''png'' w (snd (edit_image ev a w))
      \<and> ((\<exists>p \<in> set (referenced_paths a). \<not> path_exists ev p) \<longrightarrow>
            sent (snd (edit_image ev a w)) = sent w \<and> fst (edit_image ev a w) = None)"
proof -
  let ?w3 = "edit_announce a w"
  obtain r files opened w4 where o: "open_files ev a ?w3 = (r, files, opened, w4)"
    by (cases "open_files ev a ?w3") auto
  from open_files_effect [OF o]
  have oe: "opening_effect [] ?w3 opened w4"
    and ex: "r = None \<longrightarrow> (\<forall>p \<in> set (referenced_paths a). path_exists ev p)"
    by simp_all
  from edit_announce_effect [of a w "''png''"]
  have a1: "sent ?w3 = sent w" and a2: "open_handles ?w3 = open_handles w"
    and a3: "next_handle ?w3 = next_handle w" and a4: "saves_only ''png'' w ?w3"
    by simp_all
  from oe a1 a2 a3 have
    op: "opened = [next_handle w..<next_handle w4]"
    and le: "next_handle w \<le> next_handle w4"
    and oh: "open_handles w4 = open_handles w \<union> {next_handle w..<next_handle w4}"
    and se: "sent w4 = sent w" and same: "disk w4 = disk ?w3" "stdout w4 = stdout ?w3"
    by (simp_all add: opening_effect_def)
  from a4 same have s4: "saves_only ''png'' w w4"
    using saves_only_trans [OF a4 saves_only_same] by blast
  define n where "n = next_handle w4 - next_handle w"
  with le have n: "next_handle w4 = next_handle w + n" by simp
  have closed: "open_handles w4 - set opened = open_handles w - {next_handle w..<next_handle w + n}"
    unfolding oh op n by auto
  show ?thesis
  proof (cases r)
    case (Some e)
    define l where "l = (if is_FileNotFoundError e then [Lit ''Error: '', Exc e]
                         else [Lit ''Error opening file(s): '', Exc e])"
    from o Some have ed: "edit_image ev a w = (None, close_all opened (print l w4))"
      by (simp add: edit_image_def l_def)
    have "saves_only ''png'' w4 (print l w4)"
      by (rule saves_only_print) (simp add: l_def)
    then have "saves_only ''png'' w4 (close_all opened (print l w4))"
      using saves_only_trans [OF _ saves_only_same [of "close_all opened (print l w4)" "print l w4"]]
      by (simp add: close_all_effect)
    with s4 have s: "saves_only ''png'' w (close_all opened (print l w4))"
      by (rule saves_only_trans)
    show ?thesis
      unfolding ed using s closed n se
      by (intro exI [of _ n]) (simp add: close_all_effect)
  next
    case None
    define req where "req = \<lparr>req_url = BASE_URL @ ''/edits'',
                     req_headers = [(''Authorization'', ''Bearer '' @ api_key ev)],
                     req_body = FormBody files (edit_payload a),
                     req_timeout = 120\<rparr>"
    obtain r5 w5 where t: "try_request ev req (arg_output_prefix a) ''png'' w4 = (r5, w5)"
      by (cases "try_request ev req (arg_output_prefix a) ''png'' w4")
    from o None t have ed: "edit_image ev a w = (r5, close_all opened w5)"
      by (simp add: edit_image_def req_def Let_def)
    from try_request_effect [of ev req "arg_output_prefix a" "''png''" w4] t
    have t2: "open_handles w5 = open_handles w4" and t3: "next_handle w5 = next_handle w4"
      and t4: "saves_only ''png'' w4 w5"
      by simp_all
    have "saves_only ''png'' w5 (close_all opened w5)"
      by (rule saves_only_same) (simp_all add: close_all_effect)
    with t4 have "saves_only ''png'' w4 (close_all opened w5)" by (rule saves_only_trans)
    with s4 have s: "saves_only ''png'' w (close_all opened w5)" by (rule saves_only_trans)
    from ex None have all: "\<not> (\<exists>p \<in> set (referenced_paths a). \<not> path_exists ev p)" by simp
    show ?thesis
      unfolding ed using s closed n t2 t3 all
      by (intro exI [of _ n]) (simp add: close_all_effect)
  qed
qed


lemmas edit_run =
  edit_image_def edit_announce_def open_files_def open_rb_def Let_def try_request_def post_def
  handle_api_response_def process_body_def images_stage_def data_is_list_def usage_stage_def
  has_usage_def data_is_empty_def except_RequestException_def close_all_def close_def
  save_image_from_b64_def a2b_base64_def table_a2b_base64_def image_filename_def strftime_def
  pad2_def pad4_def digit_chars str_int_def str_nat.simps print_def
  is_RequestException_def is_FileNotFoundError_def

lemmas edit_inputs = args_edit_def ev2_def ev0_def w0_def w_busy_def resp_one_image_def


lemma ex_missing_stdout:
  "last (stdout (snd (edit_image ev0 (args_edit\<lparr>arg_image_paths := [''a.png'', ''missing.png'']\<rparr>) w_busy)))
     = [Lit ''Error: '', Exc (FileNotFoundError ''Image file not found: missing.png'')]"
  by (simp add: edit_run edit_inputs)




text \<open>
  Claim C9. Whatever the arguments of an \<open>edit\<close> invocation, every file it changes has a
  name that ends in \<open>.png\<close>, and so has every file it reports as saved; its output only
  extends what was printed before.
\<close>

theorem edit_image_saves_png:
  "(\<forall>f. disk (snd (edit_image ev a w)) f \<noteq> disk w f \<longrightarrow> endswith f ''.png'')
   \<and> take (length (stdout w)) (stdout (snd (edit_image ev a w))) = stdout w
   \<and> (\<forall>f. [Lit ''Saved image: '', Str f]
            \<in> set (drop (length (stdout w)) (stdout (snd (edit_image ev a w))))
          \<longrightarrow> endswith f ''.png'')"
proof -
  from edit_image_effect [of ev a w] have "saves_only ''png'' w (snd (edit_image ev a w))"
    by blast
  then show ?thesis by (simp add: saves_only_def new_lines_def)
qed

lemma ex_edit_disk:
  "disk (snd (edit_image ev2 args_edit w0)) ''edi_20250102_030405_1.png''
     = Some [104, 101, 108, 108, 111]"
  by (simp add: edit_run edit_inputs)

lemma ex_edit_stdout:
  "last (stdout (snd (edit_image ev2 args_edit w0)))
     = [Lit ''Saved image: '', Str ''edi_20250102_030405_1.png'']
   \<and> length (stdout (snd (edit_image ev2 args_edit w0))) = 2"
  by (simp add: edit_run edit_inputs)

theorem edit_image_saves_png_witness:
  "arg_image_paths args_edit = [''photo.jpg'']
   \<and> disk (snd (edit_image ev2 args_edit w0)) ''edi_20250102_030405_1.png''
       = Some [104, 101, 108, 108, 111]
   \<and> disk w0 ''edi_20250102_030405_1.png'' = None
   \<and> [Lit ''Saved image: '', Str ''edi_20250102_030405_1.png'']
       \<in> set (drop (length (stdout w0)) (stdout (snd (edit_image ev2 args_edit w0))))
   \<and> endswith ''edi_20250102_030405_1.png'' ''.png''"
proof -
  have 1: "arg_image_paths args_edit = [''photo.jpg'']" by (simp add: args_edit_def)
  have 2: "disk w0 ''edi_20250102_030405_1.png'' = None" by (simp add: w0_def)
  have "stdout (snd (edit_image ev2 args_edit w0)) \<noteq> []"
    using ex_edit_stdout by auto
  then have "last (stdout (snd (edit_image ev2 args_edit w0)))
               \<in> set (stdout (snd (edit_image ev2 args_edit w0)))"
    by (rule last_in_set)
  with ex_edit_stdout
  have 3: "[Lit ''Saved image: '', Str ''edi_20250102_030405_1.png'']
       \<in> set (drop (length (stdout w0)) (stdout (snd (edit_image ev2 args_edit w0))))"
    by (simp add: w0_def)
  from ex_edit_disk 2
  have "disk (snd (edit_image ev2 args_edit w0)) ''edi_20250102_030405_1.png''
          \<noteq> disk w0 ''edi_20250102_030405_1.png''"
    by simp
  with edit_image_saves_png [of ev2 args_edit w0]
  have 4: "endswith ''edi_20250102_030405_1.png'' ''.png''" by blast
  from 1 ex_edit_disk 2 3 4 show ?thesis by (intro conjI)
qed

end
